theory Spec2Isabelle
  imports Complex_Main "HOL-Library.Multiset"
begin

section \<open>JavaScript values used by the server\<close>

text \<open>
  Numbers are modelled as \<^typ>\<open>real\<close> (ideal arithmetic in place of IEEE doubles) and a
  number that may be \<open>null\<close>, \<open>undefined\<close> or \<open>NaN\<close> as \<^typ>\<open>real option\<close>. A string
  field that may be missing is a \<^typ>\<open>string option\<close>. Strings are byte lists;
  \<open>toLowerCase\<close> is modelled on the ASCII letters.
\<close>

text \<open>\<open>x && ...\<close> on a number: \<open>0\<close>, \<open>NaN\<close>, \<open>null\<close> and \<open>undefined\<close> are falsy.\<close>

definition truthy_num :: "real option \<Rightarrow> bool" where
  "truthy_num v = (case v of None \<Rightarrow> False | Some x \<Rightarrow> x \<noteq> 0)"

text \<open>\<open>x || d\<close> on a number.\<close>

definition num_or :: "real option \<Rightarrow> real \<Rightarrow> real" where
  "num_or v d = (case v of None \<Rightarrow> d | Some x \<Rightarrow> if x = 0 then d else x)"

text \<open>\<open>parseFloat(x) || null\<close>: the parse result, with \<open>0\<close> turned into \<open>null\<close>.\<close>

definition num_or_null :: "real option \<Rightarrow> real option" where
  "num_or_null v = (if truthy_num v then v else None)"

text \<open>\<open>s || d\<close> on a string: a missing and an empty string are falsy.\<close>

definition str_or :: "string option \<Rightarrow> string \<Rightarrow> string" where
  "str_or v d = (case v of None \<Rightarrow> d | Some s \<Rightarrow> if s = [] then d else s)"

text \<open>\<open>Math.round\<close>: the nearest integer, halves towards plus infinity.\<close>

definition js_round :: "real \<Rightarrow> int" where
  "js_round x = \<lfloor>x + 1 / 2\<rfloor>"

definition lower_char :: "char \<Rightarrow> char" where
  "lower_char c =
     (let n = (of_char c :: nat) in if 65 \<le> n \<and> n \<le> 90 then char_of (n + 32) else c)"

definition toLowerCase :: "string \<Rightarrow> string" where
  "toLowerCase s = map lower_char s"

fun startsWith :: "string \<Rightarrow> string \<Rightarrow> bool" where
  "startsWith s [] = True"
| "startsWith [] (t # ts) = False"
| "startsWith (c # cs) (t # ts) = (c = t \<and> startsWith cs ts)"

text \<open>\<open>s.includes(t)\<close>: \<open>t\<close> occurs in \<open>s\<close> as a contiguous substring.\<close>

fun js_includes :: "string \<Rightarrow> string \<Rightarrow> bool" where
  "js_includes [] t = (t = [])"
| "js_includes (c # cs) t = (startsWith (c # cs) t \<or> js_includes cs t)"

text \<open>Decimal rendering of a count, as a template literal prints it.\<close>

fun show_nat :: "nat \<Rightarrow> string" where
  "show_nat n =
     (if n < 10 then [''0123456789'' ! n]
      else show_nat (n div 10) @ [''0123456789'' ! (n mod 10)])"

declare show_nat.simps [simp del]

section \<open>Priority Scorer (src/server/index.js)\<close>

text \<open>The fields of a NYC 311 row that the adapter and \<open>calculatePriority\<close> read.
  \<open>latitude\<close> and \<open>longitude\<close> hold the result of \<open>parseFloat\<close> (\<open>None\<close> for \<open>NaN\<close>).\<close>

record nyc311_row =
  unique_key :: "string option"
  complaint_type :: "string option"
  descriptor :: "string option"
  n_latitude :: "real option"
  n_longitude :: "real option"
  n_status :: "string option"

definition criticalTerms :: "string list" where
  "criticalTerms = [''fire'', ''shooting'', ''weapon'', ''gas leak'', ''explosion'',
     ''emergency'', ''assault'', ''robbery'', ''collapse'']"

definition highTerms :: "string list" where
  "highTerms = [''accident'', ''injury'', ''medical'', ''hazard'', ''dangerous'']"

definition priority_text :: "nyc311_row \<Rightarrow> string" where
  "priority_text r =
     toLowerCase (str_or (complaint_type r) [] @ '' '' @ str_or (descriptor r) [])"

text \<open>\<open>terms.forEach(term => { if (text.includes(term)) priority += inc })\<close>\<close>

definition add_terms :: "string \<Rightarrow> int \<Rightarrow> string list \<Rightarrow> int \<Rightarrow> int" where
  "add_terms text inc terms p0 =
     foldl (\<lambda>p term. if js_includes text term then p + inc else p) p0 terms"

definition calculatePriority :: "nyc311_row \<Rightarrow> int" where
  "calculatePriority r =
     (let p1 = add_terms (priority_text r) 40 criticalTerms 50;
          p2 = add_terms (priority_text r) 20 highTerms p1;
          p3 = (if n_status r = Some ''Open'' then p2 + 10 else p2)
      in min p3 100)"

text \<open>A Chicago crime row. \<open>c_date\<close> is the time stamp, in milliseconds, that
  \<open>new Date(crime.date)\<close> denotes; \<open>None\<close> stands for a missing, empty or unparseable
  date, none of which earns the recency bonus. \<open>c_arrest\<close> is the truthiness of
  \<open>crime.arrest\<close>.\<close>

record chicago_crime_row =
  c_id :: "string option"
  primary_type :: "string option"
  c_description :: "string option"
  c_latitude :: "real option"
  c_longitude :: "real option"
  c_date :: "int option"
  c_arrest :: bool

definition some_term :: "string list \<Rightarrow> string \<Rightarrow> string \<Rightarrow> bool" where
  "some_term terms a b = list_ex (\<lambda>t. js_includes a t \<or> js_includes b t) terms"

definition chicago_critical :: "string list" where
  "chicago_critical = [''homicide'', ''criminal sexual assault'', ''robbery'',
     ''aggravated assault'', ''kidnapping'', ''arson'']"

definition chicago_high :: "string list" where
  "chicago_high = [''battery'', ''burglary'', ''motor vehicle theft'', ''weapons violation'',
     ''narcotics'']"

definition chicago_medium :: "string list" where
  "chicago_medium = [''theft'', ''criminal damage'', ''assault'', ''criminal trespass'']"

text \<open>\<open>now\<close> is \<open>Date.now()\<close>, in milliseconds.\<close>

definition calculateChicagoCrimePriority :: "int \<Rightarrow> chicago_crime_row \<Rightarrow> int" where
  "calculateChicagoCrimePriority now crime =
     (let type = toLowerCase (str_or (primary_type crime) []);
          desc = toLowerCase (str_or (c_description crime) []);
          p1 = (if some_term chicago_critical type desc then 95
                else if some_term chicago_high type desc then 75
                else if some_term chicago_medium type desc then 55
                else 50);
          p2 = (case c_date crime of
                  None \<Rightarrow> p1
                | Some t \<Rightarrow> if t > now - 3600000 then p1 + 10 else p1)
      in min p2 100)"

text \<open>A Chicago traffic crash row; the injury counts hold the result of \<open>parseInt\<close>
  (\<open>None\<close> for \<open>NaN\<close>).\<close>

record chicago_crash_row =
  crash_record_id :: "string option"
  first_crash_type :: "string option"
  prim_contributory_cause :: "string option"
  x_latitude :: "real option"
  x_longitude :: "real option"
  injuries_fatal :: "int option"
  injuries_incapacitating :: "int option"
  injuries_total :: "int option"
  hit_and_run_i :: "string option"
  damage :: "string option"

text \<open>\<open>parseInt(x) > n\<close>; a comparison with \<open>NaN\<close> is false.\<close>

definition int_gt :: "int option \<Rightarrow> int \<Rightarrow> bool" where
  "int_gt v n = (case v of None \<Rightarrow> False | Some x \<Rightarrow> x > n)"

definition calculateCrashPriority :: "chicago_crash_row \<Rightarrow> int" where
  "calculateCrashPriority crash =
     (let p = (if int_gt (injuries_fatal crash) 0 then 100
               else if int_gt (injuries_incapacitating crash) 0 then 90
               else if int_gt (injuries_total crash) 2 then 80
               else if int_gt (injuries_total crash) 0 then 70
               else if hit_and_run_i crash = Some ''Y'' then 75
               else if damage crash = Some ''OVER $1,500'' then 55
               else 45)
      in min p 100)"

text \<open>The attributes and geometry of an Evansville crime feature.\<close>

record evansville_crime_row =
  inci_id :: "string option"
  Map_Crime :: "string option"
  chrgdesc :: "string option"
  arr_chrg :: bool
  e_geom_x :: "real option"
  e_geom_y :: "real option"

definition evansville_critical :: "string list" where
  "evansville_critical = [''homicide'', ''murder'', ''rape'', ''robbery'', ''kidnapping'',
     ''arson'']"

definition evansville_high :: "string list" where
  "evansville_high = [''battery'', ''burglary'', ''theft'', ''weapon'', ''firearm'',
     ''intimidation'', ''assault'']"

definition evansville_medium :: "string list" where
  "evansville_medium = [''criminal mischief'', ''fraud'', ''forgery'', ''trespass'']"

definition calculateEvansvilleCrimePriority :: "evansville_crime_row \<Rightarrow> int" where
  "calculateEvansvilleCrimePriority attrs =
     (let crime = toLowerCase (str_or (Map_Crime attrs) []);
          desc = toLowerCase (str_or (chrgdesc attrs) []);
          p = (if some_term evansville_critical crime desc then 95
               else if some_term evansville_high crime desc then 75
               else if some_term evansville_medium crime desc then 55
               else 50)
      in min p 100)"

section \<open>Priority Scorer of the client fallback (src/services/dataService.ts)\<close>

definition client_critical :: "string list" where
  "client_critical = [''homicide'', ''criminal sexual assault'', ''robbery'', ''kidnapping'',
     ''arson'']"

definition client_high :: "string list" where
  "client_high = [''battery'', ''burglary'', ''motor vehicle theft'', ''weapons violation'']"

definition calculateChicagoCrimePriority_client :: "chicago_crime_row \<Rightarrow> int" where
  "calculateChicagoCrimePriority_client crime =
     (let type = toLowerCase (str_or (primary_type crime) []);
          p = (if list_ex (\<lambda>c. js_includes type c) client_critical then 95
               else if list_ex (\<lambda>h. js_includes type h) client_high then 75
               else 50)
      in min p 100)"

definition client_criticalTerms :: "string list" where
  "client_criticalTerms = [''fire'', ''shooting'', ''weapon'', ''gas leak'', ''explosion'',
     ''emergency'', ''assault'']"

definition calculatePriority_client :: "nyc311_row \<Rightarrow> int" where
  "calculatePriority_client item =
     (let t = toLowerCase (str_or (complaint_type item) []);
          d = toLowerCase (str_or (descriptor item) []);
          s1 = (if some_term client_criticalTerms t d then 50 + 40 else 50);
          s2 = (if n_status item = Some ''Open'' then s1 + 10 else s1)
      in min s2 100)"

section \<open>Hotspot Clusterer (src/server/index.js)\<close>

text \<open>The fields of the records in the request body that the analysis reads. An element
  of the incident or camera array may be \<open>null\<close> (\<open>None\<close>).\<close>

record a_incident =
  i_lat :: "real option"
  i_lng :: "real option"
  i_priority :: "real option"
  i_title :: "string option"

record a_camera =
  k_lat :: "real option"
  k_lng :: "real option"
  k_viewers :: "real option"

record cluster =
  cl_incidents :: "a_incident list"
  cl_cameras :: "a_camera list"
  cl_lat :: real
  cl_lng :: real
  totalPriority :: real

text \<open>The cluster key is the string \<open>`${Math.round(lat * 10) / 10},${Math.round(lng * 10) / 10}`\<close>.
  Two such strings are equal exactly when the two pairs of numbers are, so the key is
  modelled as the pair. \<open>locationClusters\<close> is an object whose keys are never array
  indices, so \<open>Object.values\<close> lists the clusters in insertion order: an association
  list, extended at the end.\<close>

type_synonym cell_key = "real \<times> real"

definition cell_key :: "real \<Rightarrow> real \<Rightarrow> cell_key" where
  "cell_key lat lng = (real_of_int (js_round (lat * 10)) / 10, real_of_int (js_round (lng * 10)) / 10)"

definition has_key :: "cell_key \<Rightarrow> (cell_key \<times> 'c) list \<Rightarrow> bool" where
  "has_key k cls = list_ex (\<lambda>e. fst e = k) cls"

definition upd_key :: "cell_key \<Rightarrow> ('c \<Rightarrow> 'c) \<Rightarrow> (cell_key \<times> 'c) list \<Rightarrow> (cell_key \<times> 'c) list" where
  "upd_key k f cls = map (\<lambda>e. if fst e = k then (fst e, f (snd e)) else e) cls"

definition new_cluster :: "real \<Rightarrow> real \<Rightarrow> cluster" where
  "new_cluster lat lng =
     \<lparr>cl_incidents = [], cl_cameras = [], cl_lat = lat, cl_lng = lng, totalPriority = 0\<rparr>"

definition ensure_key :: "cell_key \<Rightarrow> 'c \<Rightarrow> (cell_key \<times> 'c) list \<Rightarrow> (cell_key \<times> 'c) list" where
  "ensure_key k c cls = (if has_key k cls then cls else cls @ [(k, c)])"

definition incident_located :: "a_incident \<Rightarrow> bool" where
  "incident_located inc = (truthy_num (i_lat inc) \<and> truthy_num (i_lng inc))"

definition add_incident :: "(cell_key \<times> cluster) list \<Rightarrow> a_incident option \<Rightarrow> (cell_key \<times> cluster) list" where
  "add_incident cls el =
     (case el of
        None \<Rightarrow> cls
      | Some inc \<Rightarrow>
          if incident_located inc then
            (let lat = the (i_lat inc); lng = the (i_lng inc); key = cell_key lat lng
             in upd_key key
                  (\<lambda>c. c\<lparr>cl_incidents := cl_incidents c @ [inc],
                         totalPriority := totalPriority c + num_or (i_priority inc) 50\<rparr>)
                  (ensure_key key (new_cluster lat lng) cls))
          else cls)"

text \<open>\<open>camera.viewers > 50\<close>; false for a missing count.\<close>

definition viewers_gt :: "real option \<Rightarrow> real \<Rightarrow> bool" where
  "viewers_gt v n = (case v of None \<Rightarrow> False | Some x \<Rightarrow> x > n)"

definition camera_qualifies :: "a_camera \<Rightarrow> bool" where
  "camera_qualifies cam = (truthy_num (k_lat cam) \<and> truthy_num (k_lng cam) \<and> viewers_gt (k_viewers cam) 50)"

definition add_camera :: "(cell_key \<times> cluster) list \<Rightarrow> a_camera option \<Rightarrow> (cell_key \<times> cluster) list" where
  "add_camera cls el =
     (case el of
        None \<Rightarrow> cls
      | Some cam \<Rightarrow>
          if camera_qualifies cam then
            (let lat = the (k_lat cam); lng = the (k_lng cam); key = cell_key lat lng
             in upd_key key
                  (\<lambda>c. c\<lparr>cl_cameras := cl_cameras c @ [cam],
                         totalPriority := totalPriority c + the (k_viewers cam)\<rparr>)
                  (ensure_key key (new_cluster lat lng) cls))
          else cls)"

definition locationClusters :: "a_incident option list \<Rightarrow> a_camera option list \<Rightarrow> (cell_key \<times> cluster) list" where
  "locationClusters incidents cameras = foldl add_camera (foldl add_incident [] incidents) cameras"

record hotspot =
  h_lat :: real
  h_lng :: real
  intensity :: real
  incidentCount :: nat
  cameraCount :: nat
  h_description :: string
  topIncident :: "string option"

definition cluster_intensity :: "cluster \<Rightarrow> real" where
  "cluster_intensity c =
     min 100 (totalPriority c / real (length (cl_incidents c) + length (cl_cameras c) + 1))"

definition cluster_hotspot :: "cluster \<Rightarrow> hotspot" where
  "cluster_hotspot c =
     \<lparr>h_lat = cl_lat c, h_lng = cl_lng c, intensity = cluster_intensity c,
      incidentCount = length (cl_incidents c), cameraCount = length (cl_cameras c),
      h_description = show_nat (length (cl_incidents c)) @ '' incidents, ''
        @ show_nat (length (cl_cameras c)) @ '' active cameras'',
      topIncident = Some (case cl_incidents c of
                            [] \<Rightarrow> ''High camera activity''
                          | inc # _ \<Rightarrow> str_or (i_title inc) ''High camera activity'')\<rparr>"

text \<open>\<open>hotspots.sort((a, b) => b.intensity - a.intensity)\<close>: the intensities are finite
  numbers, so the comparator is a total preorder and the (stable) sort orders the list
  by descending intensity.\<close>

definition sort_by_intensity :: "hotspot list \<Rightarrow> hotspot list" where
  "sort_by_intensity hs = sort_key (\<lambda>h. - intensity h) hs"

text \<open>The hotspots after the threshold and the sort, before \<open>slice(0, 20)\<close>.\<close>

definition all_hotspots :: "a_incident option list \<Rightarrow> a_camera option list \<Rightarrow> hotspot list" where
  "all_hotspots incidents cameras =
     sort_by_intensity
       (filter (\<lambda>h. intensity h > 30) (map (cluster_hotspot \<circ> snd) (locationClusters incidents cameras)))"

definition avgIntensity :: "hotspot list \<Rightarrow> real" where
  "avgIntensity hs =
     (if length hs > 0 then foldl (\<lambda>s h. s + intensity h) 0 hs / real (length hs) else 0)"

definition threat_of :: "real \<Rightarrow> string" where
  "threat_of avg = (if avg > 70 then ''high'' else if avg > 40 then ''medium'' else ''low'')"

record correlation =
  co_type :: string
  co_description :: string
  co_lat :: real
  co_lng :: real

definition correlations_of :: "hotspot list \<Rightarrow> correlation list" where
  "correlations_of hs =
     map (\<lambda>h. \<lparr>co_type = ''incident-camera'',
               co_description = ''High correlation: '' @ show_nat (incidentCount h)
                 @ '' incidents near '' @ show_nat (cameraCount h) @ '' trending cameras'',
               co_lat = h_lat h, co_lng = h_lng h\<rparr>)
       (filter (\<lambda>h. incidentCount h > 0 \<and> cameraCount h > 0) (take 5 hs))"

record analysis_result =
  hotspots :: "hotspot list"
  correlations :: "correlation list"
  threatLevel :: string
  summary :: string
  analyzedAt :: string

text \<open>\<open>now\<close> is \<open>new Date().toISOString()\<close>. The \<open>news\<close> argument is not read.\<close>

definition performAlgorithmicAnalysis ::
  "a_incident option list \<Rightarrow> a_camera option list \<Rightarrow> 'n list \<Rightarrow> string \<Rightarrow> analysis_result" where
  "performAlgorithmicAnalysis incidents cameras news now =
     (let hs = all_hotspots incidents cameras;
          level = threat_of (avgIntensity hs);
          cs = correlations_of hs
      in \<lparr>hotspots = take 20 hs, correlations = cs, threatLevel = level,
          summary = ''Identified '' @ show_nat (length hs) @ '' potential hotspots. Overall threat level: ''
            @ level @ ''. '' @ show_nat (length cs)
            @ '' correlations found between camera activity and incidents.'',
          analyzedAt = now\<rparr>)"

section \<open>Local fallback analysis of the client (src/services/dataService.ts)\<close>

text \<open>The client keeps no running sum in a cluster; \<open>totalPriority\<close> stays \<open>0\<close> there.
  Its arrays are typed, so no element is \<open>null\<close>.\<close>

definition add_incident_local :: "(cell_key \<times> cluster) list \<Rightarrow> a_incident \<Rightarrow> (cell_key \<times> cluster) list" where
  "add_incident_local cls inc =
     (if incident_located inc then
        (let lat = the (i_lat inc); lng = the (i_lng inc); key = cell_key lat lng
         in upd_key key (\<lambda>c. c\<lparr>cl_incidents := cl_incidents c @ [inc]\<rparr>)
              (ensure_key key (new_cluster lat lng) cls))
      else cls)"

definition camera_located :: "a_camera \<Rightarrow> bool" where
  "camera_located cam = (truthy_num (k_lat cam) \<and> truthy_num (k_lng cam))"

definition add_camera_local :: "(cell_key \<times> cluster) list \<Rightarrow> a_camera \<Rightarrow> (cell_key \<times> cluster) list" where
  "add_camera_local cls cam =
     (if camera_located cam then
        (let lat = the (k_lat cam); lng = the (k_lng cam); key = cell_key lat lng
         in upd_key key (\<lambda>c. c\<lparr>cl_cameras := cl_cameras c @ [cam]\<rparr>)
              (ensure_key key (new_cluster lat lng) cls))
      else cls)"

definition local_clusters :: "a_incident list \<Rightarrow> a_camera list \<Rightarrow> (cell_key \<times> cluster) list" where
  "local_clusters incidents cameras =
     foldl add_camera_local (foldl add_incident_local [] incidents)
       (filter (\<lambda>c. viewers_gt (k_viewers c) 50) cameras)"

definition local_intensity :: "cluster \<Rightarrow> real" where
  "local_intensity c =
     min 100 (real (length (cl_incidents c) * 20) + real (length (cl_cameras c) * 10))"

definition local_hotspot :: "cluster \<Rightarrow> hotspot" where
  "local_hotspot c =
     \<lparr>h_lat = cl_lat c, h_lng = cl_lng c, intensity = local_intensity c,
      incidentCount = length (cl_incidents c), cameraCount = length (cl_cameras c),
      h_description = show_nat (length (cl_incidents c)) @ '' incidents, ''
        @ show_nat (length (cl_cameras c)) @ '' trending cameras'',
      topIncident = None\<rparr>"

definition local_all_hotspots :: "a_incident list \<Rightarrow> a_camera list \<Rightarrow> hotspot list" where
  "local_all_hotspots incidents cameras =
     sort_by_intensity
       (filter (\<lambda>h. intensity h > 20) (map (local_hotspot \<circ> snd) (local_clusters incidents cameras)))"

definition performLocalAnalysis :: "a_incident list \<Rightarrow> a_camera list \<Rightarrow> string \<Rightarrow> analysis_result" where
  "performLocalAnalysis incidents cameras now =
     (let hs = local_all_hotspots incidents cameras
      in \<lparr>hotspots = take 15 hs, correlations = [],
          threatLevel = (if length hs > 5 then ''medium'' else ''low''),
          summary = ''Identified '' @ show_nat (length hs)
            @ '' potential hotspots based on incident and camera activity.'',
          analyzedAt = now\<rparr>)"

section \<open>Source Adapters for incidents (src/server/index.js)\<close>

text \<open>The common record shape. The pass-through fields \<open>address\<close> and \<open>time\<close> and the
  provider-specific extras are left out; no operation below reads them.\<close>

record incident =
  inc_id :: string
  title :: string
  description :: string
  lat :: "real option"
  lng :: "real option"
  source :: string
  category :: "string option"
  status :: string
  priority :: int

text \<open>What a provider call yields: \<open>fetch\<close> or \<open>response.json()\<close> throws, the status is
  not ok, the body is not an array (of features, for ArcGIS), or a list of rows.\<close>

datatype 'row fetch_outcome = FetchThrows | NotOk nat | NotArray | Rows "'row list"

definition failed :: "'row fetch_outcome \<Rightarrow> bool" where
  "failed out = (case out of Rows data \<Rightarrow> False | _ \<Rightarrow> True)"

text \<open>\<open>.filter(i => i.lat && i.lng)\<close>\<close>

definition has_coords :: "incident \<Rightarrow> bool" where
  "has_coords i = (truthy_num (lat i) \<and> truthy_num (lng i))"

text \<open>The body shared by every incident adapter:
  \<open>try { ...; return data.map((row, index) => f).filter(i => i.lat && i.lng) } catch { return [] }\<close>,
  with \<open>return []\<close> on a bad status or a body that is not an array.\<close>

definition adapt :: "(nat \<Rightarrow> 'row \<Rightarrow> incident) \<Rightarrow> 'row fetch_outcome \<Rightarrow> incident list" where
  "adapt f out =
     (case out of
        Rows data \<Rightarrow> filter has_coords (map (\<lambda>e. f (fst e) (snd e)) (enumerate 0 data))
      | _ \<Rightarrow> [])"

definition nyc311_incident :: "nat \<Rightarrow> nyc311_row \<Rightarrow> incident" where
  "nyc311_incident index r =
     \<lparr>inc_id = ''nyc311-'' @ str_or (unique_key r) (show_nat index),
      title = str_or (complaint_type r) ''Unknown Incident'',
      description = str_or (descriptor r) [],
      lat = num_or_null (n_latitude r), lng = num_or_null (n_longitude r),
      source = ''NYC 311'', category = complaint_type r,
      status = str_or (n_status r) ''Open'',
      priority = calculatePriority r\<rparr>"

definition fetchNYC311Incidents :: "nyc311_row fetch_outcome \<Rightarrow> incident list" where
  "fetchNYC311Incidents out = adapt nyc311_incident out"

record chicago311_row =
  sr_type :: "string option"
  sr_short_code :: "string option"
  s_latitude :: "real option"
  s_longitude :: "real option"
  s_status :: "string option"

definition chicago311_incident :: "nat \<Rightarrow> chicago311_row \<Rightarrow> incident" where
  "chicago311_incident index r =
     \<lparr>inc_id = ''chi311-'' @ show_nat index,
      title = str_or (sr_type r) ''Incident'',
      description = str_or (sr_short_code r) [],
      lat = num_or_null (s_latitude r), lng = num_or_null (s_longitude r),
      source = ''Chicago 311'', category = sr_type r,
      status = str_or (s_status r) ''Open'',
      priority = 50\<rparr>"

definition fetchChicago311Incidents :: "chicago311_row fetch_outcome \<Rightarrow> incident list" where
  "fetchChicago311Incidents out = adapt chicago311_incident out"

definition chicago_crime_incident :: "int \<Rightarrow> nat \<Rightarrow> chicago_crime_row \<Rightarrow> incident" where
  "chicago_crime_incident now index crime =
     \<lparr>inc_id = ''chi-crime-'' @ str_or (c_id crime) (show_nat index),
      title = str_or (primary_type crime) ''Crime Reported'',
      description = str_or (c_description crime) [],
      lat = num_or_null (c_latitude crime), lng = num_or_null (c_longitude crime),
      source = ''Chicago PD'', category = primary_type crime,
      status = (if c_arrest crime then ''Arrest Made'' else ''Open''),
      priority = calculateChicagoCrimePriority now crime\<rparr>"

definition fetchChicagoCrimes :: "int \<Rightarrow> chicago_crime_row fetch_outcome \<Rightarrow> incident list" where
  "fetchChicagoCrimes now out = adapt (chicago_crime_incident now) out"

definition chicago_crash_incident :: "nat \<Rightarrow> chicago_crash_row \<Rightarrow> incident" where
  "chicago_crash_incident index crash =
     \<lparr>inc_id = ''chi-crash-'' @ str_or (crash_record_id crash) (show_nat index),
      title = ''Traffic Crash: '' @ str_or (first_crash_type crash) ''Vehicle Collision'',
      description = str_or (prim_contributory_cause crash) ''Unknown cause'',
      lat = num_or_null (x_latitude crash), lng = num_or_null (x_longitude crash),
      source = ''Chicago DOT'', category = Some ''Traffic Crash'',
      status = ''Reported'',
      priority = calculateCrashPriority crash\<rparr>"

definition fetchChicagoTrafficCrashes :: "chicago_crash_row fetch_outcome \<Rightarrow> incident list" where
  "fetchChicagoTrafficCrashes out = adapt chicago_crash_incident out"

text \<open>A row of the speed camera and of the red light camera data sets.\<close>

record violation_row =
  violations :: "string option"
  v_latitude :: "real option"
  v_longitude :: "real option"

definition speed_incident :: "nat \<Rightarrow> violation_row \<Rightarrow> incident" where
  "speed_incident index violation =
     \<lparr>inc_id = ''chi-speed-'' @ show_nat index,
      title = ''Speed Camera Violation Zone'',
      description = str_or (violations violation) ''Multiple'' @ '' violations recorded'',
      lat = num_or_null (v_latitude violation), lng = num_or_null (v_longitude violation),
      source = ''Chicago Speed Cameras'', category = Some ''Traffic Enforcement'',
      status = ''Active'',
      priority = 35\<rparr>"

definition fetchChicagoSpeedViolations :: "violation_row fetch_outcome \<Rightarrow> incident list" where
  "fetchChicagoSpeedViolations out = adapt speed_incident out"

definition redlight_incident :: "nat \<Rightarrow> violation_row \<Rightarrow> incident" where
  "redlight_incident index violation =
     \<lparr>inc_id = ''chi-redlight-'' @ show_nat index,
      title = ''Red Light Violation Zone'',
      description = str_or (violations violation) ''Multiple'' @ '' red light violations'',
      lat = num_or_null (v_latitude violation), lng = num_or_null (v_longitude violation),
      source = ''Chicago Red Light Cameras'', category = Some ''Traffic Enforcement'',
      status = ''Active'',
      priority = 40\<rparr>"

definition fetchChicagoRedLightViolations :: "violation_row fetch_outcome \<Rightarrow> incident list" where
  "fetchChicagoRedLightViolations out = adapt redlight_incident out"

record shotspotter_row =
  rounds :: "string option"
  g_latitude :: "real option"
  g_longitude :: "real option"

definition shotspotter_incident :: "nat \<Rightarrow> shotspotter_row \<Rightarrow> incident" where
  "shotspotter_incident index alert =
     \<lparr>inc_id = ''chi-shot-'' @ show_nat index,
      title = ''Gunshot Detection Alert'',
      description = str_or (rounds alert) ''Unknown'' @ '' rounds detected'',
      lat = num_or_null (g_latitude alert), lng = num_or_null (g_longitude alert),
      source = ''ShotSpotter (Historical)'', category = Some ''Gunshot Detection'',
      status = ''Historical'',
      priority = 85\<rparr>"

definition fetchChicagoShotSpotter :: "shotspotter_row fetch_outcome \<Rightarrow> incident list" where
  "fetchChicagoShotSpotter out = adapt shotspotter_incident out"

record building_row =
  violation_code :: "string option"
  violation_description :: "string option"
  violation_status :: "string option"
  b_latitude :: "real option"
  b_longitude :: "real option"

definition building_incident :: "nat \<Rightarrow> building_row \<Rightarrow> incident" where
  "building_incident index violation =
     \<lparr>inc_id = ''chi-bldg-'' @ show_nat index,
      title = ''Building Violation: '' @ str_or (violation_code violation) ''Code Violation'',
      description = str_or (violation_description violation) [],
      lat = num_or_null (b_latitude violation), lng = num_or_null (b_longitude violation),
      source = ''Chicago Buildings'', category = Some ''Building Safety'',
      status = str_or (violation_status violation) ''Open'',
      priority = 45\<rparr>"

definition fetchChicagoBuildingViolations :: "building_row fetch_outcome \<Rightarrow> incident list" where
  "fetchChicagoBuildingViolations out = adapt building_incident out"

text \<open>ArcGIS geometry: \<open>if (geom && geom.x && geom.y) { lng = geom.x; lat = geom.y }\<close>,
  both \<open>null\<close> otherwise. The later \<open>!isNaN\<close> tests of the filter add nothing to
  \<open>i.lat && i.lng\<close>.\<close>

definition geom_lat :: "real option \<Rightarrow> real option \<Rightarrow> real option" where
  "geom_lat x y = (if truthy_num x \<and> truthy_num y then y else None)"

definition geom_lng :: "real option \<Rightarrow> real option \<Rightarrow> real option" where
  "geom_lng x y = (if truthy_num x \<and> truthy_num y then x else None)"

definition evansville_crime_incident :: "nat \<Rightarrow> evansville_crime_row \<Rightarrow> incident" where
  "evansville_crime_incident index attrs =
     \<lparr>inc_id = ''ev-crime-'' @ str_or (inci_id attrs) (show_nat index),
      title = str_or (Map_Crime attrs) ''Crime Reported'',
      description = str_or (chrgdesc attrs) [],
      lat = geom_lat (e_geom_x attrs) (e_geom_y attrs),
      lng = geom_lng (e_geom_x attrs) (e_geom_y attrs),
      source = ''Evansville PD'', category = Map_Crime attrs,
      status = (if arr_chrg attrs then ''Arrest Charged'' else ''Open''),
      priority = calculateEvansvilleCrimePriority attrs\<rparr>"

definition fetchEvansvilleCrimes :: "evansville_crime_row fetch_outcome \<Rightarrow> incident list" where
  "fetchEvansvilleCrimes out = adapt evansville_crime_incident out"

record evansville_shots_row =
  Nature :: "string option"
  CloseCode :: "string option"
  f_geom_x :: "real option"
  f_geom_y :: "real option"

definition evansville_shots_incident :: "nat \<Rightarrow> evansville_shots_row \<Rightarrow> incident" where
  "evansville_shots_incident index attrs =
     \<lparr>inc_id = ''ev-shots-'' @ show_nat index,
      title = str_or (Nature attrs) ''Shots Fired Report'',
      description = ''911 call reported - ''
        @ (if CloseCode attrs = Some ''UNF'' then ''Unfounded''
           else if CloseCode attrs = Some ''ARR'' then ''Arrest Made''
           else if CloseCode attrs = Some ''RPT'' then ''Report Filed''
           else ''Responded''),
      lat = geom_lat (f_geom_x attrs) (f_geom_y attrs),
      lng = geom_lng (f_geom_x attrs) (f_geom_y attrs),
      source = ''Evansville 911'', category = Some ''Shots Fired'',
      status = (if CloseCode attrs = Some ''ARR'' then ''Arrest''
                else if CloseCode attrs = Some ''UNF'' then ''Unfounded''
                else ''Responded''),
      priority = 90\<rparr>"

definition fetchEvansvilleShotsFired :: "evansville_shots_row fetch_outcome \<Rightarrow> incident list" where
  "fetchEvansvilleShotsFired out = adapt evansville_shots_incident out"

section \<open>Aggregation Facade: GET /api/incidents\<close>

text \<open>What each provider answers during one request.\<close>

record providers =
  nyc311_feed :: "nyc311_row fetch_outcome"
  chicago311_feed :: "chicago311_row fetch_outcome"
  chicago_crimes_feed :: "chicago_crime_row fetch_outcome"
  chicago_crashes_feed :: "chicago_crash_row fetch_outcome"
  chicago_speed_feed :: "violation_row fetch_outcome"
  chicago_redlight_feed :: "violation_row fetch_outcome"
  chicago_shots_feed :: "shotspotter_row fetch_outcome"
  chicago_buildings_feed :: "building_row fetch_outcome"
  evansville_crimes_feed :: "evansville_crime_row fetch_outcome"
  evansville_shots_feed :: "evansville_shots_row fetch_outcome"

text \<open>\<open>allIncidents.sort((a, b) => b.priority - a.priority)\<close>\<close>

definition sort_by_priority :: "incident list \<Rightarrow> incident list" where
  "sort_by_priority xs = sort_key (\<lambda>i. - priority i) xs"

text \<open>\<open>req.query.city?.toLowerCase()\<close>\<close>

definition city_param :: "string option \<Rightarrow> string option" where
  "city_param q = map_option toLowerCase q"

definition get_incidents :: "string option \<Rightarrow> int \<Rightarrow> providers \<Rightarrow> incident list" where
  "get_incidents q now env =
     (let city = city_param q in
      if city = Some ''chicago'' then
        sort_by_priority
          (fetchChicagoCrimes now (chicago_crimes_feed env)
           @ fetchChicagoTrafficCrashes (chicago_crashes_feed env)
           @ fetchChicago311Incidents (chicago311_feed env)
           @ fetchChicagoShotSpotter (chicago_shots_feed env)
           @ fetchChicagoSpeedViolations (chicago_speed_feed env)
           @ fetchChicagoRedLightViolations (chicago_redlight_feed env)
           @ fetchChicagoBuildingViolations (chicago_buildings_feed env))
      else if city = Some ''evansville'' then
        sort_by_priority
          (fetchEvansvilleCrimes (evansville_crimes_feed env)
           @ fetchEvansvilleShotsFired (evansville_shots_feed env))
      else
        sort_by_priority
          (fetchNYC311Incidents (nyc311_feed env)
           @ fetchChicagoCrimes now (chicago_crimes_feed env)
           @ fetchChicagoTrafficCrashes (chicago_crashes_feed env)
           @ fetchChicago311Incidents (chicago311_feed env)))"

text \<open>The adapters a request fans out to, in merge order: for each, whether its provider
  call failed, and what the adapter returned.\<close>

definition contributions :: "string option \<Rightarrow> int \<Rightarrow> providers \<Rightarrow> (bool \<times> incident list) list" where
  "contributions q now env =
     (if city_param q = Some ''chicago'' then
        [(failed (chicago_crimes_feed env), fetchChicagoCrimes now (chicago_crimes_feed env)),
         (failed (chicago_crashes_feed env), fetchChicagoTrafficCrashes (chicago_crashes_feed env)),
         (failed (chicago311_feed env), fetchChicago311Incidents (chicago311_feed env)),
         (failed (chicago_shots_feed env), fetchChicagoShotSpotter (chicago_shots_feed env)),
         (failed (chicago_speed_feed env), fetchChicagoSpeedViolations (chicago_speed_feed env)),
         (failed (chicago_redlight_feed env), fetchChicagoRedLightViolations (chicago_redlight_feed env)),
         (failed (chicago_buildings_feed env), fetchChicagoBuildingViolations (chicago_buildings_feed env))]
      else if city_param q = Some ''evansville'' then
        [(failed (evansville_crimes_feed env), fetchEvansvilleCrimes (evansville_crimes_feed env)),
         (failed (evansville_shots_feed env), fetchEvansvilleShotsFired (evansville_shots_feed env))]
      else
        [(failed (nyc311_feed env), fetchNYC311Incidents (nyc311_feed env)),
         (failed (chicago_crimes_feed env), fetchChicagoCrimes now (chicago_crimes_feed env)),
         (failed (chicago_crashes_feed env), fetchChicagoTrafficCrashes (chicago_crashes_feed env)),
         (failed (chicago311_feed env), fetchChicago311Incidents (chicago311_feed env))])"

text \<open>The contributions of all adapters but the one at position \<open>i\<close>.\<close>

definition others :: "nat \<Rightarrow> (bool \<times> incident list) list \<Rightarrow> incident list" where
  "others i cs = concat (map snd (take i cs @ drop (Suc i) cs))"

section \<open>Source Adapters for cameras and GET /api/cameras\<close>

record camera =
  cam_id :: string
  cam_name :: string
  cam_location :: string
  cam_lat :: real
  cam_lng :: real
  cam_url :: "string option"
  streamUrl :: "string option"
  cam_status :: string
  cam_source :: string
  viewers :: int

text \<open>\<open>s || null\<close> on a string.\<close>

definition str_or_null :: "string option \<Rightarrow> string option" where
  "str_or_null v = (case v of None \<Rightarrow> None | Some s \<Rightarrow> if s = [] then None else Some s)"

text \<open>A value inside a template literal; \<open>undefined\<close> prints as such.\<close>

definition tpl :: "string option \<Rightarrow> string" where
  "tpl v = (case v of None \<Rightarrow> ''undefined'' | Some s \<Rightarrow> s)"

text \<open>The camera adapters map the rows and do not filter. \<open>rnd i\<close> is the value of
  \<open>Math.random()\<close> drawn for the row at position \<open>i\<close>.\<close>

definition adapt_cameras :: "(nat \<Rightarrow> 'row \<Rightarrow> camera) \<Rightarrow> 'row fetch_outcome \<Rightarrow> camera list" where
  "adapt_cameras f out =
     (case out of
        Rows data \<Rightarrow> map (\<lambda>e. f (fst e) (snd e)) (enumerate 0 data)
      | _ \<Rightarrow> [])"

record nyc_camera_row =
  cameraid :: "string option"
  nc_name :: "string option"
  borough :: "string option"
  nc_latitude :: "real option"
  nc_longitude :: "real option"
  videourl :: "string option"

definition nyc_camera :: "(nat \<Rightarrow> real) \<Rightarrow> nat \<Rightarrow> nyc_camera_row \<Rightarrow> camera" where
  "nyc_camera rnd index cam =
     \<lparr>cam_id = ''nyc-'' @ str_or (cameraid cam) (show_nat index),
      cam_name = str_or (nc_name cam) (''NYC Camera '' @ show_nat (index + 1)),
      cam_location = str_or (borough cam) ''New York'',
      cam_lat = num_or (nc_latitude cam) 40.7128,
      cam_lng = num_or (nc_longitude cam) (-74.0060),
      cam_url = Some (''https://webcams.nyctmc.org/multiviewer/data/'' @ tpl (cameraid cam)
        @ ''/snapshot.jpg''),
      streamUrl = str_or_null (videourl cam),
      cam_status = ''active'', cam_source = ''NYC DOT'',
      viewers = \<lfloor>rnd index * 150\<rfloor>\<rparr>"

definition fetchNYCCameras :: "(nat \<Rightarrow> real) \<Rightarrow> nyc_camera_row fetch_outcome \<Rightarrow> camera list" where
  "fetchNYCCameras rnd out = adapt_cameras (nyc_camera rnd) out"

record chicago_camera_row =
  intersection :: "string option"
  cc_latitude :: "real option"
  cc_longitude :: "real option"
  image :: "string option"
  video :: "string option"

definition chicago_camera :: "(nat \<Rightarrow> real) \<Rightarrow> nat \<Rightarrow> chicago_camera_row \<Rightarrow> camera" where
  "chicago_camera rnd index cam =
     \<lparr>cam_id = ''chi-'' @ show_nat index,
      cam_name = str_or (intersection cam) (''Chicago Camera '' @ show_nat (index + 1)),
      cam_location = ''Chicago, IL'',
      cam_lat = num_or (cc_latitude cam) 41.8781,
      cam_lng = num_or (cc_longitude cam) (-87.6298),
      cam_url = str_or_null (image cam),
      streamUrl = str_or_null (video cam),
      cam_status = ''active'', cam_source = ''Chicago DOT'',
      viewers = \<lfloor>rnd index * 100\<rfloor>\<rparr>"

definition fetchChicagoCameras :: "(nat \<Rightarrow> real) \<Rightarrow> chicago_camera_row fetch_outcome \<Rightarrow> camera list" where
  "fetchChicagoCameras rnd out = adapt_cameras (chicago_camera rnd) out"

text \<open>The static directories: id, name, lat, lng, location (and source).\<close>

definition caltransCameras :: "(string \<times> string \<times> real \<times> real \<times> string) list" where
  "caltransCameras =
     [
      (''ca-1'', ''I-80 Bay Bridge Toll Plaza'', 37.8162, (-122.3560), ''San Francisco, CA''),
      (''ca-2'', ''US-101 Golden Gate Bridge'', 37.8199, (-122.4783), ''San Francisco, CA''),
      (''ca-3'', ''I-405 LAX Vicinity'', 33.9425, (-118.4081), ''Los Angeles, CA''),
      (''ca-4'', ''I-5 Downtown LA'', 34.0522, (-118.2437), ''Los Angeles, CA''),
      (''ca-5'', ''SR-99 Fresno'', 36.7378, (-119.7871), ''Fresno, CA''),
      (''ca-6'', ''I-15 San Diego'', 32.7157, (-117.1611), ''San Diego, CA''),
      (''ca-7'', ''I-880 Oakland'', 37.8044, (-122.2712), ''Oakland, CA''),
      (''ca-8'', ''US-101 San Jose'', 37.3382, (-121.8863), ''San Jose, CA''),
      (''ca-9'', ''I-10 Santa Monica'', 34.0195, (-118.4912), ''Santa Monica, CA''),
      (''ca-10'', ''I-580 Dublin'', 37.7022, (-121.9358), ''Dublin, CA'')]"

definition dcCameras :: "(string \<times> string \<times> real \<times> real \<times> string) list" where
  "dcCameras =
     [
      (''dc-1'', ''Constitution Ave NW'', 38.8918, (-77.0261), ''Washington, DC''),
      (''dc-2'', ''Independence Ave SW'', 38.8871, (-77.0134), ''Washington, DC''),
      (''dc-3'', ''Pennsylvania Ave NW'', 38.8977, (-77.0365), ''Washington, DC''),
      (''dc-4'', ''I-395 Downtown'', 38.8752, (-77.0244), ''Washington, DC''),
      (''dc-5'', ''K Street NW'', 38.9024, (-77.0309), ''Washington, DC''),
      (''dc-6'', ''Georgetown Waterfront'', 38.9031, (-77.0654), ''Washington, DC''),
      (''dc-7'', ''DuPont Circle'', 38.9096, (-77.0434), ''Washington, DC'')]"

definition internationalCams :: "(string \<times> string \<times> real \<times> real \<times> string \<times> string) list" where
  "internationalCams =
     [
      (''uk-1'', ''Trafalgar Square'', 51.5074, (-0.1278), ''London, UK'', ''TfL''),
      (''uk-2'', ''Piccadilly Circus'', 51.5099, (-0.1342), ''London, UK'', ''TfL''),
      (''uk-3'', ''Tower Bridge'', 51.5055, (-0.0754), ''London, UK'', ''TfL''),
      (''jp-1'', ''Shibuya Crossing'', 35.6595, 139.7004, ''Tokyo, Japan'', ''Public''),
      (''jp-2'', ''Shinjuku Station'', 35.6896, 139.7006, ''Tokyo, Japan'', ''Public''),
      (''de-1'', ''Brandenburg Gate'', 52.5163, 13.3777, ''Berlin, Germany'', ''Public''),
      (''fr-1'', ''Champs-'' @ [CHR 0xC3, CHR 0x89] @ ''lys'' @ [CHR 0xC3, CHR 0xA9] @ ''es'', 48.8698, 2.3078, ''Paris, France'', ''Public''),
      (''fr-2'', ''Place de la Concorde'', 48.8656, 2.3212, ''Paris, France'', ''Public'')]"

definition static_camera ::
  "string \<Rightarrow> int \<Rightarrow> int \<Rightarrow> (nat \<Rightarrow> real) \<Rightarrow> nat \<times> string \<times> string \<times> real \<times> real \<times> string \<Rightarrow> camera" where
  "static_camera src width base rnd e =
     (case e of (index, i, n, la, lo, loc) \<Rightarrow>
        \<lparr>cam_id = i, cam_name = n, cam_location = loc, cam_lat = la, cam_lng = lo,
         cam_url = None, streamUrl = None, cam_status = ''active'', cam_source = src,
         viewers = \<lfloor>rnd index * real_of_int width\<rfloor> + base\<rparr>)"

definition fetchCaliforniaCameras :: "(nat \<Rightarrow> real) \<Rightarrow> camera list" where
  "fetchCaliforniaCameras rnd = map (static_camera ''Caltrans'' 80 20 rnd) (enumerate 0 caltransCameras)"

definition fetchDCCameras :: "(nat \<Rightarrow> real) \<Rightarrow> camera list" where
  "fetchDCCameras rnd = map (static_camera ''DC DOT'' 60 10 rnd) (enumerate 0 dcCameras)"

definition fetchInternationalCameras :: "(nat \<Rightarrow> real) \<Rightarrow> camera list" where
  "fetchInternationalCameras rnd =
     map (\<lambda>e. case e of (index, i, n, la, lo, loc, src) \<Rightarrow>
            static_camera src 200 50 rnd (index, i, n, la, lo, loc))
       (enumerate 0 internationalCams)"

record camera_providers =
  nyc_cameras_feed :: "nyc_camera_row fetch_outcome"
  chicago_cameras_feed :: "chicago_camera_row fetch_outcome"
  nyc_rnd :: "nat \<Rightarrow> real"
  chicago_rnd :: "nat \<Rightarrow> real"
  california_rnd :: "nat \<Rightarrow> real"
  dc_rnd :: "nat \<Rightarrow> real"
  international_rnd :: "nat \<Rightarrow> real"

text \<open>The handler does not read \<open>req.query\<close>.\<close>

definition get_cameras :: "string option \<Rightarrow> camera_providers \<Rightarrow> camera list" where
  "get_cameras q env =
     sort_key (\<lambda>c. - viewers c)
       (fetchNYCCameras (nyc_rnd env) (nyc_cameras_feed env)
        @ fetchChicagoCameras (chicago_rnd env) (chicago_cameras_feed env)
        @ fetchCaliforniaCameras (california_rnd env)
        @ fetchDCCameras (dc_rnd env)
        @ fetchInternationalCameras (international_rnd env))"

section \<open>GET /api/radio-streams\<close>

record radio_stream =
  rs_id :: string
  rs_name :: string
  rs_description :: string
  rs_location :: string
  rs_url :: string
  rs_type :: string
  rs_city :: string
  listeners :: int

text \<open>\<open>rnd i\<close> is the value of \<open>Math.random()\<close> drawn for the stream at position \<open>i\<close>.\<close>

definition allStreams :: "(nat \<Rightarrow> real) \<Rightarrow> radio_stream list" where
  "allStreams rnd =
     [
      \<lparr>rs_id = ''chicago-pd-zone1'', rs_name = ''Chicago PD Zone 1'',
       rs_description = ''CPD Zones 1-2 (Districts 1, 18)'',
       rs_location = ''Chicago, IL'',
       rs_url = ''https://broadcastify.cdnstream1.com/17635'',
       rs_type = ''police'', rs_city = ''chicago'',
       listeners = \<lfloor>rnd 0 * 400\<rfloor> + 150\<rparr>,
      \<lparr>rs_id = ''chicago-pd-zone2'', rs_name = ''Chicago PD Zone 2'',
       rs_description = ''CPD Zones 3-4 (Districts 2, 21)'',
       rs_location = ''Chicago, IL'',
       rs_url = ''https://broadcastify.cdnstream1.com/32190'',
       rs_type = ''police'', rs_city = ''chicago'',
       listeners = \<lfloor>rnd 1 * 350\<rfloor> + 100\<rparr>,
      \<lparr>rs_id = ''chicago-pd-zone5'', rs_name = ''Chicago PD Zone 5'',
       rs_description = ''CPD Zone 5 (Districts 7, 8)'',
       rs_location = ''Chicago, IL'',
       rs_url = ''https://broadcastify.cdnstream1.com/32193'',
       rs_type = ''police'', rs_city = ''chicago'',
       listeners = \<lfloor>rnd 2 * 300\<rfloor> + 80\<rparr>,
      \<lparr>rs_id = ''chicago-pd-zone6'', rs_name = ''Chicago PD Zone 6'',
       rs_description = ''CPD Zone 6 (Districts 3, 6)'',
       rs_location = ''Chicago, IL'',
       rs_url = ''https://broadcastify.cdnstream1.com/32194'',
       rs_type = ''police'', rs_city = ''chicago'',
       listeners = \<lfloor>rnd 3 * 280\<rfloor> + 90\<rparr>,
      \<lparr>rs_id = ''chicago-pd-zone10'', rs_name = ''Chicago PD Zone 10'',
       rs_description = ''CPD Zone 10 (Districts 10, 11)'',
       rs_location = ''Chicago, IL'',
       rs_url = ''https://broadcastify.cdnstream1.com/32198'',
       rs_type = ''police'', rs_city = ''chicago'',
       listeners = \<lfloor>rnd 4 * 320\<rfloor> + 110\<rparr>,
      \<lparr>rs_id = ''chicago-fire-main'', rs_name = ''Chicago Fire Main'',
       rs_description = ''Chicago Fire Department - Main Dispatch'',
       rs_location = ''Chicago, IL'',
       rs_url = ''https://broadcastify.cdnstream1.com/17436'',
       rs_type = ''fire'', rs_city = ''chicago'',
       listeners = \<lfloor>rnd 5 * 350\<rfloor> + 120\<rparr>,
      \<lparr>rs_id = ''chicago-fire-englewood'', rs_name = ''Chicago Fire Englewood'',
       rs_description = ''CFD Englewood Fireground'',
       rs_location = ''Chicago, IL'',
       rs_url = ''https://broadcastify.cdnstream1.com/17437'',
       rs_type = ''fire'', rs_city = ''chicago'',
       listeners = \<lfloor>rnd 6 * 200\<rfloor> + 60\<rparr>,
      \<lparr>rs_id = ''chicago-ems'', rs_name = ''Chicago EMS'',
       rs_description = ''Chicago Emergency Medical Services'',
       rs_location = ''Chicago, IL'',
       rs_url = ''https://broadcastify.cdnstream1.com/32396'',
       rs_type = ''ems'', rs_city = ''chicago'',
       listeners = \<lfloor>rnd 7 * 250\<rfloor> + 70\<rparr>,
      \<lparr>rs_id = ''cook-county-sheriff'', rs_name = ''Cook County Sheriff'',
       rs_description = ''Cook County Sheriff Police'',
       rs_location = ''Cook County, IL'',
       rs_url = ''https://broadcastify.cdnstream1.com/17641'',
       rs_type = ''police'', rs_city = ''chicago'',
       listeners = \<lfloor>rnd 8 * 200\<rfloor> + 50\<rparr>,
      \<lparr>rs_id = ''illinois-state-police'', rs_name = ''Illinois State Police'',
       rs_description = ''ISP Chicago District'',
       rs_location = ''Illinois'',
       rs_url = ''https://broadcastify.cdnstream1.com/29105'',
       rs_type = ''police'', rs_city = ''chicago'',
       listeners = \<lfloor>rnd 9 * 180\<rfloor> + 40\<rparr>,
      \<lparr>rs_id = ''nypd-citywide'', rs_name = ''NYPD Citywide'',
       rs_description = ''New York Police Department - Citywide Operations'',
       rs_location = ''New York, NY'',
       rs_url = ''https://broadcastify.cdnstream1.com/14439'',
       rs_type = ''police'', rs_city = ''nyc'',
       listeners = \<lfloor>rnd 10 * 500\<rfloor> + 100\<rparr>,
      \<lparr>rs_id = ''nypd-manhattan'', rs_name = ''NYPD Manhattan'',
       rs_description = ''NYPD Manhattan Dispatch'',
       rs_location = ''Manhattan, NY'',
       rs_url = ''https://broadcastify.cdnstream1.com/31728'',
       rs_type = ''police'', rs_city = ''nyc'',
       listeners = \<lfloor>rnd 11 * 300\<rfloor> + 50\<rparr>,
      \<lparr>rs_id = ''fdny-citywide'', rs_name = ''FDNY Citywide'',
       rs_description = ''Fire Department of New York - Citywide'',
       rs_location = ''New York, NY'',
       rs_url = ''https://broadcastify.cdnstream1.com/14433'',
       rs_type = ''fire'', rs_city = ''nyc'',
       listeners = \<lfloor>rnd 12 * 400\<rfloor> + 80\<rparr>,
      \<lparr>rs_id = ''la-county-fire'', rs_name = ''LA County Fire'',
       rs_description = ''Los Angeles County Fire Department'',
       rs_location = ''Los Angeles, CA'',
       rs_url = ''https://broadcastify.cdnstream1.com/29461'',
       rs_type = ''fire'', rs_city = ''la'',
       listeners = \<lfloor>rnd 13 * 250\<rfloor> + 40\<rparr>,
      \<lparr>rs_id = ''lapd-dispatch'', rs_name = ''LAPD Dispatch'',
       rs_description = ''Los Angeles Police Department'',
       rs_location = ''Los Angeles, CA'',
       rs_url = ''https://broadcastify.cdnstream1.com/32982'',
       rs_type = ''police'', rs_city = ''la'',
       listeners = \<lfloor>rnd 14 * 300\<rfloor> + 70\<rparr>]"

definition get_radio_streams :: "string option \<Rightarrow> (nat \<Rightarrow> real) \<Rightarrow> radio_stream list" where
  "get_radio_streams q rnd =
     (let city = city_param q; streams = allStreams rnd in
      if city = Some ''chicago'' then filter (\<lambda>s. rs_city s = ''chicago'') streams
      else if city \<noteq> None \<and> city \<noteq> Some [] then filter (\<lambda>s. Some (rs_city s) = city) streams
      else streams)"

text \<open>The predefined city codes (the keys of \<open>CITY_GDELT_QUERIES\<close>).\<close>

definition city_codes :: "string list" where
  "city_codes = [''chicago'', ''nyc'', ''la'', ''dc'', ''evansville'']"

section \<open>POST /api/analyze-hotspots\<close>

record 'n request_body =
  b_incidents :: "a_incident option list option"
  b_cameras :: "a_camera option list option"
  b_news :: "'n list option"

text \<open>\<open>xs || []\<close>\<close>

definition list_or :: "'a list option \<Rightarrow> 'a list" where
  "list_or v = (case v of None \<Rightarrow> [] | Some xs \<Rightarrow> xs)"

text \<open>\<open>model.generateContent(prompt)\<close> followed by \<open>response.text()\<close>: it throws, with a
  message, or yields a text.\<close>

datatype ai_outcome = AiThrows string | AiText string

text \<open>\<open>text.match(/\{[\s\S]*\}/)\<close>: from the first opening brace to the last closing brace
  after it.\<close>

definition json_match :: "string \<Rightarrow> string option" where
  "json_match text =
     (case dropWhile (\<lambda>c. c \<noteq> CHR ''{'') text of
        [] \<Rightarrow> None
      | b # rest \<Rightarrow>
          (case rev (dropWhile (\<lambda>c. c \<noteq> CHR ''}'') (rev rest)) of
             [] \<Rightarrow> None
           | m \<Rightarrow> Some (b # m)))"

text \<open>The body of a response; both are sent by \<open>res.json\<close> with status 200.\<close>

datatype 'j response = AiAnalysis 'j | Fallback analysis_result

text \<open>\<open>genAI\<close> is \<open>None\<close> when no API key is configured; otherwise it answers a prompt,
  which is built from the first ten incidents, cameras and news. \<open>JSON_parse\<close> is
  \<open>JSON.parse\<close>, \<open>Inl\<close> the message of the error it throws. The request body is \<open>None\<close>
  when it is undefined, which makes the destructuring throw. The result is the console
  output and the response.\<close>

definition analyze_hotspots ::
  "(a_incident option list \<Rightarrow> a_camera option list \<Rightarrow> 'n list \<Rightarrow> ai_outcome) option
   \<Rightarrow> (string \<Rightarrow> string + 'j) \<Rightarrow> string \<Rightarrow> 'n request_body option \<Rightarrow> string list \<times> 'j response" where
  "analyze_hotspots genAI JSON_parse now body =
     (case body of
        None \<Rightarrow>
          ([''Error analyzing hotspots:''],
           Fallback (performAlgorithmicAnalysis [] [] ([] :: 'n list) now))
      | Some b \<Rightarrow>
          (let incidents = b_incidents b; cameras = b_cameras b; news = b_news b;
               fallback = Fallback (performAlgorithmicAnalysis
                            (list_or incidents) (list_or cameras) (list_or news) now)
           in case genAI of
                None \<Rightarrow> ([], fallback)
              | Some generate \<Rightarrow>
                  (case generate (take 10 (list_or incidents)) (take 10 (list_or cameras))
                          (take 10 (list_or news)) of
                     AiThrows msg \<Rightarrow>
                       ([''Gemini analysis failed, using algorithmic fallback: '' @ msg], fallback)
                   | AiText text \<Rightarrow>
                       (case json_match text of
                          None \<Rightarrow> ([], fallback)
                        | Some m \<Rightarrow>
                            (case JSON_parse m of
                               Inl msg \<Rightarrow>
                                 ([''Gemini analysis failed, using algorithmic fallback: '' @ msg],
                                  fallback)
                             | Inr analysis \<Rightarrow> ([], AiAnalysis analysis))))))"

text \<open>The external call is unavailable, errors, or returns a text from which no JSON
  object can be parsed.\<close>

definition ai_unusable ::
  "(a_incident option list \<Rightarrow> a_camera option list \<Rightarrow> 'n list \<Rightarrow> ai_outcome) option
   \<Rightarrow> (string \<Rightarrow> string + 'j) \<Rightarrow> 'n request_body \<Rightarrow> bool" where
  "ai_unusable genAI JSON_parse b =
     (case genAI of
        None \<Rightarrow> True
      | Some generate \<Rightarrow>
          (case generate (take 10 (list_or (b_incidents b))) (take 10 (list_or (b_cameras b)))
                  (take 10 (list_or (b_news b))) of
             AiThrows msg \<Rightarrow> True
           | AiText text \<Rightarrow>
               (case json_match text of
                  None \<Rightarrow> True
                | Some m \<Rightarrow> (case JSON_parse m of Inl msg \<Rightarrow> True | Inr analysis \<Rightarrow> False))))"

section \<open>Records assigned to a grid cell\<close>

definition in_cell :: "cell_key \<Rightarrow> real \<times> real \<Rightarrow> bool" where
  "in_cell k p = (cell_key (fst p) (snd p) = k)"

text \<open>The coordinates of the first record of \<open>ps\<close> that falls into cell \<open>k\<close>.\<close>

definition first_in_cell :: "cell_key \<Rightarrow> (real \<times> real) list \<Rightarrow> (real \<times> real) option" where
  "first_in_cell k ps = find (in_cell k) ps"

definition non_null :: "'a option list \<Rightarrow> 'a list" where
  "non_null xs = List.map_filter id xs"

definition incident_coords :: "a_incident \<Rightarrow> real \<times> real" where
  "incident_coords inc = (the (i_lat inc), the (i_lng inc))"

definition camera_coords :: "a_camera \<Rightarrow> real \<times> real" where
  "camera_coords cam = (the (k_lat cam), the (k_lng cam))"

text \<open>The coordinates of the records that the server assigns to a cell, in the order in
  which it processes them: the located incidents, then the qualifying cameras.\<close>

definition assigned_records :: "a_incident option list \<Rightarrow> a_camera option list \<Rightarrow> (real \<times> real) list" where
  "assigned_records incidents cameras =
     map incident_coords (filter incident_located (non_null incidents))
     @ map camera_coords (filter camera_qualifies (non_null cameras))"

text \<open>The same for the client.\<close>

definition assigned_records_local :: "a_incident list \<Rightarrow> a_camera list \<Rightarrow> (real \<times> real) list" where
  "assigned_records_local incidents cameras =
     map incident_coords (filter incident_located incidents)
     @ map camera_coords (filter camera_located (filter (\<lambda>c. viewers_gt (k_viewers c) 50) cameras))"

text \<open>Invariant of the cluster table after the records \<open>ps\<close>: every cluster carries the
  coordinates of the first record of its cell, and every record has its cell in the table.\<close>

definition cells_inv :: "(real \<times> real) list \<Rightarrow> (cell_key \<times> cluster) list \<Rightarrow> bool" where
  "cells_inv ps cls =
     ((\<forall>e \<in> set cls. first_in_cell (fst e) ps = Some (cl_lat (snd e), cl_lng (snd e)))
      \<and> (\<forall>p \<in> set ps. has_key (cell_key (fst p) (snd p)) cls))"

section \<open>Auxiliary notions for the statements\<close>


text \<open>A run in which every \<open>Math.random()\<close> draw is \<open>0\<close>.\<close>

definition lowest_draws :: "nat \<Rightarrow> real" where
  "lowest_draws i = 0"

text \<open>A request during which the NYC 311 provider answers with status 503 and the
  Chicago providers answer with one crime, one crash and no service request.\<close>

definition nyc_down :: providers where
  "nyc_down =
     \<lparr>nyc311_feed = NotOk 503,
      chicago311_feed = Rows [],
      chicago_crimes_feed = Rows
        [\<lparr>c_id = Some ''14001'', primary_type = Some ''THEFT'', c_description = Some ''OVER $500'',
          c_latitude = Some 41.88, c_longitude = Some (- 87.63), c_date = None, c_arrest = False\<rparr>],
      chicago_crashes_feed = Rows
        [\<lparr>crash_record_id = Some ''ab12'', first_crash_type = Some ''REAR END'',
          prim_contributory_cause = None, x_latitude = Some 41.75, x_longitude = Some (- 87.6),
          injuries_fatal = Some 0, injuries_incapacitating = Some 0, injuries_total = Some 1,
          hit_and_run_i = None, damage = None\<rparr>],
      chicago_speed_feed = FetchThrows,
      chicago_redlight_feed = FetchThrows,
      chicago_shots_feed = FetchThrows,
      chicago_buildings_feed = FetchThrows,
      evansville_crimes_feed = FetchThrows,
      evansville_shots_feed = FetchThrows\<rparr>"

text \<open>A generative model that answers in prose, without any brace.\<close>

definition prose_model :: "a_incident option list \<Rightarrow> a_camera option list \<Rightarrow> unit list \<Rightarrow> ai_outcome" where
  "prose_model incidents cameras news = AiText ''No hotspots could be identified.''"

section \<open>Ranges, threshold, order and cap\<close>


lemma add_terms_bounds: "0 \<le> inc \<Longrightarrow> p0 \<le> add_terms text inc terms p0"
  unfolding add_terms_def
proof (induction terms arbitrary: p0)
  case Nil
  then show ?case by simp
next
  case (Cons t ts)
  have "p0 \<le> (if js_includes text t then p0 + inc else p0)" using Cons.prems by simp
  also have "\<dots> \<le> foldl (\<lambda>p term. if js_includes text term then p + inc else p)
      (if js_includes text t then p0 + inc else p0) ts"
    using Cons.IH [OF Cons.prems] .
  finally show ?case by simp
qed

lemma calculatePriority_range: "50 \<le> calculatePriority r \<and> calculatePriority r \<le> 100"
proof -
  have a: "50 \<le> add_terms (priority_text r) 40 criticalTerms 50"
    by (rule add_terms_bounds) simp
  have b: "add_terms (priority_text r) 40 criticalTerms 50
      \<le> add_terms (priority_text r) 20 highTerms (add_terms (priority_text r) 40 criticalTerms 50)"
    by (rule add_terms_bounds) simp
  from a b show ?thesis by (simp add: calculatePriority_def Let_def)
qed

lemma chicago_range: "50 \<le> calculateChicagoCrimePriority now c \<and> calculateChicagoCrimePriority now c \<le> 100"
  by (simp add: calculateChicagoCrimePriority_def Let_def split: option.splits)

lemma crash_range: "45 \<le> calculateCrashPriority c \<and> calculateCrashPriority c \<le> 100"
  by (simp add: calculateCrashPriority_def Let_def)

lemma evansville_range: "50 \<le> calculateEvansvilleCrimePriority c \<and> calculateEvansvilleCrimePriority c \<le> 100"
  by (simp add: calculateEvansvilleCrimePriority_def Let_def)

lemma client_chicago_range: "50 \<le> calculateChicagoCrimePriority_client c \<and> calculateChicagoCrimePriority_client c \<le> 100"
  by (simp add: calculateChicagoCrimePriority_client_def Let_def)

lemma client_priority_range: "50 \<le> calculatePriority_client c \<and> calculatePriority_client c \<le> 100"
  by (simp add: calculatePriority_client_def Let_def)

lemma set_sort_by_intensity: "set (sort_by_intensity hs) = set hs"
  by (simp add: sort_by_intensity_def)

lemma all_hotspots_mem:
  "h \<in> set (all_hotspots incidents cameras) \<Longrightarrow>
     30 < intensity h \<and> (\<exists>e \<in> set (locationClusters incidents cameras). h = cluster_hotspot (snd e))"
  by (auto simp: all_hotspots_def set_sort_by_intensity)

lemma local_all_hotspots_mem:
  "h \<in> set (local_all_hotspots incidents cameras) \<Longrightarrow>
     20 < intensity h \<and> (\<exists>e \<in> set (local_clusters incidents cameras). h = local_hotspot (snd e))"
  by (auto simp: local_all_hotspots_def set_sort_by_intensity)

lemma server_hotspots_subset:
  "set (hotspots (performAlgorithmicAnalysis incidents cameras news now)) \<subseteq> set (all_hotspots incidents cameras)"
  by (simp add: performAlgorithmicAnalysis_def Let_def set_take_subset)

lemma client_hotspots_subset:
  "set (hotspots (performLocalAnalysis incidents cameras now)) \<subseteq> set (local_all_hotspots incidents cameras)"
  by (simp add: performLocalAnalysis_def Let_def set_take_subset)

lemma cluster_intensity_le: "intensity (cluster_hotspot c) \<le> 100"
  by (simp add: cluster_hotspot_def cluster_intensity_def)

lemma local_intensity_le: "intensity (local_hotspot c) \<le> 100"
  by (simp add: local_hotspot_def local_intensity_def)

lemma sorted_desc_sort: "sorted_wrt (\<lambda>a b. intensity b \<le> intensity a) (sort_by_intensity hs)"
proof -
  have "sorted (map (\<lambda>h. - intensity h) (sort_key (\<lambda>h. - intensity h) hs))"
    by (rule sorted_sort_key)
  then show ?thesis
    by (simp add: sort_by_intensity_def sorted_wrt_map)
qed

lemma sorted_desc_take:
  "sorted_wrt (\<lambda>a b. intensity b \<le> intensity a) (take n (sort_by_intensity hs))"
  by (rule sorted_wrt_take) (rule sorted_desc_sort)

text \<open>
  C1. Whatever the incidents and cameras are (priorities and viewer counts of any sign),
  every priority that a Priority Scorer function returns and the intensity of every
  hotspot that the Hotspot Clusterer returns, on the server and in the client fallback,
  lie between 0 and 100.
\<close>

theorem scores_and_intensities_in_range:
  "(0 \<le> calculatePriority r \<and> calculatePriority r \<le> 100)
   \<and> (0 \<le> calculateChicagoCrimePriority t crime \<and> calculateChicagoCrimePriority t crime \<le> 100)
   \<and> (0 \<le> calculateCrashPriority crash \<and> calculateCrashPriority crash \<le> 100)
   \<and> (0 \<le> calculateEvansvilleCrimePriority attrs \<and> calculateEvansvilleCrimePriority attrs \<le> 100)
   \<and> (0 \<le> calculateChicagoCrimePriority_client crime \<and> calculateChicagoCrimePriority_client crime \<le> 100)
   \<and> (0 \<le> calculatePriority_client r \<and> calculatePriority_client r \<le> 100)
   \<and> (\<forall>h \<in> set (hotspots (performAlgorithmicAnalysis incidents cameras news now)).
         0 \<le> intensity h \<and> intensity h \<le> 100)
   \<and> (\<forall>h \<in> set (hotspots (performLocalAnalysis incidents' cameras' now)).
         0 \<le> intensity h \<and> intensity h \<le> 100)"
proof -
  have s: "\<forall>h \<in> set (hotspots (performAlgorithmicAnalysis incidents cameras news now)).
         0 \<le> intensity h \<and> intensity h \<le> 100"
  proof
    fix h assume "h \<in> set (hotspots (performAlgorithmicAnalysis incidents cameras news now))"
    with server_hotspots_subset have "h \<in> set (all_hotspots incidents cameras)" by blast
    from all_hotspots_mem [OF this] show "0 \<le> intensity h \<and> intensity h \<le> 100"
      using cluster_intensity_le by auto
  qed
  have c: "\<forall>h \<in> set (hotspots (performLocalAnalysis incidents' cameras' now)).
         0 \<le> intensity h \<and> intensity h \<le> 100"
  proof
    fix h assume "h \<in> set (hotspots (performLocalAnalysis incidents' cameras' now))"
    with client_hotspots_subset have "h \<in> set (local_all_hotspots incidents' cameras')" by blast
    from local_all_hotspots_mem [OF this] show "0 \<le> intensity h \<and> intensity h \<le> 100"
      using local_intensity_le by auto
  qed
  have p1: "0 \<le> calculatePriority r \<and> calculatePriority r \<le> 100"
    using calculatePriority_range [of r] by simp
  have p2: "0 \<le> calculateChicagoCrimePriority t crime \<and> calculateChicagoCrimePriority t crime \<le> 100"
    using chicago_range [of t crime] by simp
  have p3: "0 \<le> calculateCrashPriority crash \<and> calculateCrashPriority crash \<le> 100"
    using crash_range [of crash] by simp
  have p4: "0 \<le> calculateEvansvilleCrimePriority attrs \<and> calculateEvansvilleCrimePriority attrs \<le> 100"
    using evansville_range [of attrs] by simp
  have p5: "0 \<le> calculateChicagoCrimePriority_client crime \<and> calculateChicagoCrimePriority_client crime \<le> 100"
    using client_chicago_range [of crime] by simp
  have p6: "0 \<le> calculatePriority_client r \<and> calculatePriority_client r \<le> 100"
    using client_priority_range [of r] by simp
  from p1 p2 p3 p4 p5 p6 s c show ?thesis by blast
qed

theorem scores_and_intensities_in_range_witness:
  "\<lparr>h_lat = 41.87, h_lng = - 87.63, intensity = 47.5, incidentCount = 1, cameraCount = 0,
      h_description = ''1 incidents, 0 active cameras'', topIncident = Some ''High camera activity''\<rparr>
     \<in> set (hotspots (performAlgorithmicAnalysis
          [Some \<lparr>i_lat = Some 10, i_lng = Some 20, i_priority = Some (- 500), i_title = None\<rparr>,
           Some \<lparr>i_lat = Some 41.87, i_lng = Some (- 87.63), i_priority = Some 95, i_title = None\<rparr>]
          [] ([] :: unit list) []))
   \<and> (0 :: real) \<le> 47.5 \<and> (47.5 :: real) \<le> 100"
proof -
  let ?h = "\<lparr>h_lat = 41.87, h_lng = - 87.63, intensity = 47.5, incidentCount = 1, cameraCount = 0,
      h_description = ''1 incidents, 0 active cameras'', topIncident = Some ''High camera activity''\<rparr>"
  let ?r = "performAlgorithmicAnalysis
          [Some \<lparr>i_lat = Some 10, i_lng = Some 20, i_priority = Some (- 500), i_title = None\<rparr>,
           Some \<lparr>i_lat = Some 41.87, i_lng = Some (- 87.63), i_priority = Some 95, i_title = None\<rparr>]
          [] ([] :: unit list) []"
  have m: "?h \<in> set (hotspots ?r)" by code_simp
  have "\<forall>h \<in> set (hotspots ?r). 0 \<le> intensity h \<and> intensity h \<le> 100"
    using scores_and_intensities_in_range by blast
  with m have "0 \<le> intensity ?h \<and> intensity ?h \<le> 100" by blast
  with m show ?thesis by simp
qed


text \<open>
  C4. The hotspot list holds only grid cells whose intensity is above the threshold
  (30 on the server, 20 in the client fallback), is sorted by descending intensity and
  is no longer than the cap (20 on the server, 15 in the client fallback).
\<close>

theorem hotspots_thresholded_sorted_capped:
  "(\<forall>h \<in> set (hotspots (performAlgorithmicAnalysis incidents cameras news now)).
       30 < intensity h \<and> (\<exists>e \<in> set (locationClusters incidents cameras). h = cluster_hotspot (snd e)))
   \<and> sorted_wrt (\<lambda>a b. intensity b \<le> intensity a)
        (hotspots (performAlgorithmicAnalysis incidents cameras news now))
   \<and> length (hotspots (performAlgorithmicAnalysis incidents cameras news now)) \<le> 20
   \<and> (\<forall>h \<in> set (hotspots (performLocalAnalysis incidents' cameras' now)).
       20 < intensity h \<and> (\<exists>e \<in> set (local_clusters incidents' cameras'). h = local_hotspot (snd e)))
   \<and> sorted_wrt (\<lambda>a b. intensity b \<le> intensity a)
        (hotspots (performLocalAnalysis incidents' cameras' now))
   \<and> length (hotspots (performLocalAnalysis incidents' cameras' now)) \<le> 15"
proof -
  have a: "\<forall>h \<in> set (hotspots (performAlgorithmicAnalysis incidents cameras news now)).
       30 < intensity h \<and> (\<exists>e \<in> set (locationClusters incidents cameras). h = cluster_hotspot (snd e))"
    using server_hotspots_subset all_hotspots_mem by blast
  have b: "sorted_wrt (\<lambda>a b. intensity b \<le> intensity a)
        (hotspots (performAlgorithmicAnalysis incidents cameras news now))"
    by (simp add: performAlgorithmicAnalysis_def Let_def all_hotspots_def sorted_desc_take)
  have c: "length (hotspots (performAlgorithmicAnalysis incidents cameras news now)) \<le> 20"
    by (simp add: performAlgorithmicAnalysis_def Let_def)
  have d: "\<forall>h \<in> set (hotspots (performLocalAnalysis incidents' cameras' now)).
       20 < intensity h \<and> (\<exists>e \<in> set (local_clusters incidents' cameras'). h = local_hotspot (snd e))"
    using client_hotspots_subset local_all_hotspots_mem by blast
  have e: "sorted_wrt (\<lambda>a b. intensity b \<le> intensity a)
        (hotspots (performLocalAnalysis incidents' cameras' now))"
    by (simp add: performLocalAnalysis_def Let_def local_all_hotspots_def sorted_desc_take)
  have f: "length (hotspots (performLocalAnalysis incidents' cameras' now)) \<le> 15"
    by (simp add: performLocalAnalysis_def Let_def)
  from a b c d e f show ?thesis by blast
qed

theorem hotspots_thresholded_sorted_capped_witness:
  "\<lparr>h_lat = 41.87, h_lng = - 87.63, intensity = 47.5, incidentCount = 1, cameraCount = 0,
      h_description = ''1 incidents, 0 active cameras'', topIncident = Some ''High camera activity''\<rparr>
     \<in> set (hotspots (performAlgorithmicAnalysis
          [Some \<lparr>i_lat = Some 10, i_lng = Some 20, i_priority = Some 12, i_title = None\<rparr>,
           Some \<lparr>i_lat = Some 41.87, i_lng = Some (- 87.63), i_priority = Some 95, i_title = None\<rparr>]
          [] ([] :: unit list) []))
   \<and> (30 :: real) < 47.5"
proof -
  let ?h = "\<lparr>h_lat = 41.87, h_lng = - 87.63, intensity = 47.5, incidentCount = 1, cameraCount = 0,
      h_description = ''1 incidents, 0 active cameras'', topIncident = Some ''High camera activity''\<rparr>"
  let ?r = "performAlgorithmicAnalysis
          [Some \<lparr>i_lat = Some 10, i_lng = Some 20, i_priority = Some 12, i_title = None\<rparr>,
           Some \<lparr>i_lat = Some 41.87, i_lng = Some (- 87.63), i_priority = Some 95, i_title = None\<rparr>]
          [] ([] :: unit list) []"
  have m: "?h \<in> set (hotspots ?r)" by code_simp
  have "\<forall>h \<in> set (hotspots ?r). 30 < intensity h"
    using hotspots_thresholded_sorted_capped [of "[Some \<lparr>i_lat = Some 10, i_lng = Some 20, i_priority = Some 12, i_title = None\<rparr>,
           Some \<lparr>i_lat = Some 41.87, i_lng = Some (- 87.63), i_priority = Some 95, i_title = None\<rparr>]" "[]" "[] :: unit list" "[]"]
    by blast
  with m have "30 < intensity ?h" by blast
  with m show ?thesis by simp
qed

lemma show_nat_0: "show_nat 0 = ''0''"
  by (simp add: show_nat.simps)

lemma show_nat_1: "show_nat (Suc 0) = ''1''"
  by (simp add: show_nat.simps)

text \<open>
  C3. One incident at (41.87, -87.63) with priority 95 and no camera: the clusterer builds
  the single grid cell (41.9, -87.6) and returns exactly one hotspot, for that cell, with
  incidentCount 1, cameraCount 0 and intensity min(100, 95/2) = 47.5. The hotspot's own
  \<open>lat\<close> and \<open>lng\<close> are those of the incident.
\<close>

theorem single_incident_hotspot:
  "cell_key 41.87 (- 87.63) = (41.9, - 87.6)
   \<and> map fst (locationClusters
        [Some \<lparr>i_lat = Some 41.87, i_lng = Some (- 87.63), i_priority = Some 95, i_title = t\<rparr>] [])
       = [(41.9, - 87.6)]
   \<and> hotspots (performAlgorithmicAnalysis
        [Some \<lparr>i_lat = Some 41.87, i_lng = Some (- 87.63), i_priority = Some 95, i_title = t\<rparr>]
        [] news now)
       = [\<lparr>h_lat = 41.87, h_lng = - 87.63, intensity = 47.5, incidentCount = 1, cameraCount = 0,
           h_description = ''1 incidents, 0 active cameras'',
           topIncident = Some (str_or t ''High camera activity'')\<rparr>]
   \<and> min 100 (95 / 2) = (47.5 :: real)"
proof -
  let ?i = "\<lparr>i_lat = Some (4187 / 100), i_lng = Some (- (8763 / 100)), i_priority = Some 95,
              i_title = t\<rparr>"
  have k: "cell_key (4187 / 100) (- (8763 / 100)) = (419 / 10, - (438 / 5))"
    by (simp add: cell_key_def js_round_def)
  have cl: "locationClusters [Some ?i] []
      = [((419 / 10, - (438 / 5)),
          \<lparr>cl_incidents = [?i], cl_cameras = [], cl_lat = 4187 / 100, cl_lng = - (8763 / 100),
             totalPriority = 95\<rparr>)]"
    by (simp add: locationClusters_def add_incident_def incident_located_def truthy_num_def
        k ensure_key_def has_key_def upd_key_def new_cluster_def num_or_def Let_def)
  have hs: "all_hotspots [Some ?i] []
      = [\<lparr>h_lat = 4187 / 100, h_lng = - (8763 / 100), intensity = 95 / 2, incidentCount = 1,
           cameraCount = 0, h_description = ''1 incidents, 0 active cameras'',
           topIncident = Some (str_or t ''High camera activity'')\<rparr>]"
    by (simp add: all_hotspots_def cl sort_by_intensity_def cluster_hotspot_def
        cluster_intensity_def show_nat_0 show_nat_1)
  have 1: "cell_key 41.87 (- 87.63) = (41.9, - 87.6)"
    by (simp add: k)
  have 2: "map fst (locationClusters
        [Some \<lparr>i_lat = Some 41.87, i_lng = Some (- 87.63), i_priority = Some 95, i_title = t\<rparr>] [])
       = [(41.9, - 87.6)]"
    by (simp add: cl)
  have 3: "hotspots (performAlgorithmicAnalysis
        [Some \<lparr>i_lat = Some 41.87, i_lng = Some (- 87.63), i_priority = Some 95, i_title = t\<rparr>]
        [] news now)
       = [\<lparr>h_lat = 41.87, h_lng = - 87.63, intensity = 47.5, incidentCount = 1, cameraCount = 0,
           h_description = ''1 incidents, 0 active cameras'',
           topIncident = Some (str_or t ''High camera activity'')\<rparr>]"
    by (simp add: performAlgorithmicAnalysis_def Let_def hs)
  have 4: "min 100 (95 / 2) = (47.5 :: real)"
    by simp
  from 1 2 3 4 show ?thesis by blast
qed

lemma add_terms_blank: "\<forall>t \<in> set terms. \<not> js_includes '' '' t \<Longrightarrow> add_terms '' '' inc terms p = p"
  unfolding add_terms_def by (induction terms arbitrary: p) simp_all

lemma blank_critical: "add_terms '' '' 40 criticalTerms p = p"
  by (rule add_terms_blank) (simp add: criticalTerms_def)

lemma blank_high: "add_terms '' '' 20 highTerms p = p"
  by (rule add_terms_blank) (simp add: highTerms_def)

lemma blank_text:
  "str_or (complaint_type r) [] = [] \<Longrightarrow> str_or (descriptor r) [] = [] \<Longrightarrow> priority_text r = '' ''"
  by (simp add: priority_text_def toLowerCase_def lower_char_def)

lemma no_term_empty: "[] \<notin> set terms \<Longrightarrow> \<not> some_term terms [] []"
  by (auto simp: some_term_def list_ex_iff)

text \<open>
  C6, as stated: an incident record whose category and description are both empty scores
  exactly 50. It fails for an open NYC 311 complaint, which scores 60.
\<close>

theorem empty_text_open_status_counterexample:
  "str_or (complaint_type \<lparr>unique_key = None, complaint_type = Some [], descriptor = Some [],
       n_latitude = None, n_longitude = None, n_status = Some ''Open''\<rparr>) [] = []
   \<and> str_or (descriptor \<lparr>unique_key = None, complaint_type = Some [], descriptor = Some [],
       n_latitude = None, n_longitude = None, n_status = Some ''Open''\<rparr>) [] = []
   \<and> calculatePriority \<lparr>unique_key = None, complaint_type = Some [], descriptor = Some [],
       n_latitude = None, n_longitude = None, n_status = Some ''Open''\<rparr> = 60
   \<and> calculatePriority \<lparr>unique_key = None, complaint_type = Some [], descriptor = Some [],
       n_latitude = None, n_longitude = None, n_status = Some ''Open''\<rparr> \<noteq> 50"
  by code_simp

text \<open>
  C6, amended. With empty (or missing) category and description, \<open>calculatePriority\<close>
  returns the baseline 50, plus 10 when the status is \<open>Open\<close>;
  \<open>calculateChicagoCrimePriority\<close> returns 50, plus 10 when the crime is less than an
  hour old; \<open>calculateEvansvilleCrimePriority\<close> returns 50. None of the three ever
  returns less than 50.
\<close>

theorem empty_text_scores_baseline_plus_bonus:
  "(str_or (complaint_type r) [] = [] \<and> str_or (descriptor r) [] = [] \<longrightarrow>
      calculatePriority r = (if n_status r = Some ''Open'' then 60 else 50))
   \<and> (str_or (primary_type crime) [] = [] \<and> str_or (c_description crime) [] = [] \<longrightarrow>
      calculateChicagoCrimePriority now crime
        = (case c_date crime of
             None \<Rightarrow> 50
           | Some t \<Rightarrow> if t > now - 3600000 then 60 else 50))
   \<and> (str_or (Map_Crime attrs) [] = [] \<and> str_or (chrgdesc attrs) [] = [] \<longrightarrow>
      calculateEvansvilleCrimePriority attrs = 50)
   \<and> 50 \<le> calculatePriority r
   \<and> 50 \<le> calculateChicagoCrimePriority now crime
   \<and> 50 \<le> calculateEvansvilleCrimePriority attrs"
proof -
  have a: "str_or (complaint_type r) [] = [] \<and> str_or (descriptor r) [] = [] \<longrightarrow>
      calculatePriority r = (if n_status r = Some ''Open'' then 60 else 50)"
    by (simp add: calculatePriority_def Let_def blank_text blank_critical blank_high)
  have c1: "\<not> some_term chicago_critical [] []"
    by (rule no_term_empty) (simp add: chicago_critical_def)
  have c2: "\<not> some_term chicago_high [] []"
    by (rule no_term_empty) (simp add: chicago_high_def)
  have c3: "\<not> some_term chicago_medium [] []"
    by (rule no_term_empty) (simp add: chicago_medium_def)
  have b: "str_or (primary_type crime) [] = [] \<and> str_or (c_description crime) [] = [] \<longrightarrow>
      calculateChicagoCrimePriority now crime
        = (case c_date crime of
             None \<Rightarrow> 50
           | Some t \<Rightarrow> if t > now - 3600000 then 60 else 50)"
    by (simp add: calculateChicagoCrimePriority_def Let_def toLowerCase_def c1 c2 c3
        split: option.splits)
  have e1: "\<not> some_term evansville_critical [] []"
    by (rule no_term_empty) (simp add: evansville_critical_def)
  have e2: "\<not> some_term evansville_high [] []"
    by (rule no_term_empty) (simp add: evansville_high_def)
  have e3: "\<not> some_term evansville_medium [] []"
    by (rule no_term_empty) (simp add: evansville_medium_def)
  have c: "str_or (Map_Crime attrs) [] = [] \<and> str_or (chrgdesc attrs) [] = [] \<longrightarrow>
      calculateEvansvilleCrimePriority attrs = 50"
    by (simp add: calculateEvansvilleCrimePriority_def Let_def toLowerCase_def e1 e2 e3)
  from a b c calculatePriority_range [of r] chicago_range [of now crime] evansville_range [of attrs]
  show ?thesis by blast
qed

theorem empty_text_scores_baseline_plus_bonus_witness:
  "str_or (complaint_type \<lparr>unique_key = None, complaint_type = None, descriptor = Some [],
       n_latitude = None, n_longitude = None, n_status = Some ''Closed''\<rparr>) [] = []
   \<and> str_or (descriptor \<lparr>unique_key = None, complaint_type = None, descriptor = Some [],
       n_latitude = None, n_longitude = None, n_status = Some ''Closed''\<rparr>) [] = []
   \<and> calculatePriority \<lparr>unique_key = None, complaint_type = None, descriptor = Some [],
       n_latitude = None, n_longitude = None, n_status = Some ''Closed''\<rparr> = 50
   \<and> str_or (primary_type \<lparr>c_id = None, primary_type = Some [], c_description = None,
       c_latitude = None, c_longitude = None, c_date = Some 1000, c_arrest = False\<rparr>) [] = []
   \<and> str_or (c_description \<lparr>c_id = None, primary_type = Some [], c_description = None,
       c_latitude = None, c_longitude = None, c_date = Some 1000, c_arrest = False\<rparr>) [] = []
   \<and> calculateChicagoCrimePriority 2000 \<lparr>c_id = None, primary_type = Some [], c_description = None,
       c_latitude = None, c_longitude = None, c_date = Some 1000, c_arrest = False\<rparr> = 60
   \<and> str_or (Map_Crime \<lparr>inci_id = None, Map_Crime = None, chrgdesc = None, arr_chrg = False,
       e_geom_x = None, e_geom_y = None\<rparr>) [] = []
   \<and> str_or (chrgdesc \<lparr>inci_id = None, Map_Crime = None, chrgdesc = None, arr_chrg = False,
       e_geom_x = None, e_geom_y = None\<rparr>) [] = []
   \<and> calculateEvansvilleCrimePriority \<lparr>inci_id = None, Map_Crime = None, chrgdesc = None,
       arr_chrg = False, e_geom_x = None, e_geom_y = None\<rparr> = 50"
proof -
  let ?r = "\<lparr>unique_key = None, complaint_type = None, descriptor = Some [],
       n_latitude = None, n_longitude = None, n_status = Some ''Closed''\<rparr>"
  let ?c = "\<lparr>c_id = None, primary_type = Some [], c_description = None,
       c_latitude = None, c_longitude = None, c_date = Some 1000, c_arrest = False\<rparr>"
  let ?a = "\<lparr>inci_id = None, Map_Crime = None, chrgdesc = None, arr_chrg = False,
       e_geom_x = None, e_geom_y = None\<rparr>"
  have r: "str_or (complaint_type ?r) [] = [] \<and> str_or (descriptor ?r) [] = []"
    by (simp add: str_or_def)
  have c: "str_or (primary_type ?c) [] = [] \<and> str_or (c_description ?c) [] = []"
    by (simp add: str_or_def)
  have a: "str_or (Map_Crime ?a) [] = [] \<and> str_or (chrgdesc ?a) [] = []"
    by (simp add: str_or_def)
  note t = empty_text_scores_baseline_plus_bonus [of ?r ?c 2000 ?a]
  from t r have "calculatePriority ?r = (if n_status ?r = Some ''Closed'' then 50 else 50)"
    by simp
  then have 1: "calculatePriority ?r = 50" by simp
  from t c have "calculateChicagoCrimePriority 2000 ?c
      = (case c_date ?c of None \<Rightarrow> 50 | Some t \<Rightarrow> if t > 2000 - 3600000 then 60 else 50)"
    by blast
  then have 2: "calculateChicagoCrimePriority 2000 ?c = 60" by simp
  from t a have 3: "calculateEvansvilleCrimePriority ?a = 50" by blast
  from r c a 1 2 3 show ?thesis by blast
qed

section \<open>Coordinates of a hotspot\<close>

lemma has_key_iff: "has_key k cls \<longleftrightarrow> k \<in> fst ` set cls"
  by (auto simp: has_key_def list_ex_iff)

lemma fst_upd_key: "fst ` set (upd_key k f cls) = fst ` set cls"
proof -
  have "map fst (upd_key k f cls) = map fst cls"
    by (induction cls) (simp_all add: upd_key_def)
  then have "set (map fst (upd_key k f cls)) = set (map fst cls)" by simp
  then show ?thesis by simp
qed

lemma fst_ensure_key: "fst ` set (ensure_key k c cls) = insert k (fst ` set cls)"
  by (auto simp: ensure_key_def has_key_iff)

lemma first_in_cell_append:
  "first_in_cell k (ps @ [p]) =
     (case first_in_cell k ps of Some q \<Rightarrow> Some q | None \<Rightarrow> if in_cell k p then Some p else None)"
  by (induction ps) (auto simp: first_in_cell_def)

lemma first_in_cell_None: "first_in_cell k ps = None \<longleftrightarrow> (\<forall>p \<in> set ps. \<not> in_cell k p)"
  by (auto simp: first_in_cell_def find_None_iff)

lemma cells_inv_step:
  assumes inv: "cells_inv ps cls"
    and f: "\<And>c. cl_lat (f c) = cl_lat c \<and> cl_lng (f c) = cl_lng c"
  shows "cells_inv (ps @ [(la, lo)])
           (upd_key (cell_key la lo) f (ensure_key (cell_key la lo) (new_cluster la lo) cls))"
proof -
  let ?k = "cell_key la lo"
  let ?cls1 = "ensure_key ?k (new_cluster la lo) cls"
  have a: "\<forall>e \<in> set ?cls1. first_in_cell (fst e) (ps @ [(la, lo)]) = Some (cl_lat (snd e), cl_lng (snd e))"
  proof
    fix e assume e: "e \<in> set ?cls1"
    show "first_in_cell (fst e) (ps @ [(la, lo)]) = Some (cl_lat (snd e), cl_lng (snd e))"
    proof (cases "e \<in> set cls")
      case True
      with inv show ?thesis by (simp add: cells_inv_def first_in_cell_append)
    next
      case False
      with e have new: "\<not> has_key ?k cls" and eq: "e = (?k, new_cluster la lo)"
        by (auto simp: ensure_key_def split: if_splits)
      from new inv have "\<forall>p \<in> set ps. \<not> in_cell ?k p"
        by (auto simp: cells_inv_def in_cell_def)
      then have "first_in_cell ?k ps = None" by (simp add: first_in_cell_None)
      then show ?thesis
        by (simp add: eq first_in_cell_append in_cell_def new_cluster_def)
    qed
  qed
  have b: "\<forall>e \<in> set (upd_key ?k f ?cls1).
             first_in_cell (fst e) (ps @ [(la, lo)]) = Some (cl_lat (snd e), cl_lng (snd e))"
    using a f by (auto simp: upd_key_def)
  have c: "\<forall>p \<in> set (ps @ [(la, lo)]). has_key (cell_key (fst p) (snd p)) (upd_key ?k f ?cls1)"
    using inv by (auto simp: cells_inv_def has_key_iff fst_upd_key fst_ensure_key)
  from b c show ?thesis by (simp add: cells_inv_def)
qed

lemma non_null_Cons: "non_null (x # xs) = (case x of None \<Rightarrow> non_null xs | Some y \<Rightarrow> y # non_null xs)"
  by (simp add: non_null_def map_filter_simps split: option.splits)

lemma non_null_Nil: "non_null [] = []"
  by (simp add: non_null_def map_filter_simps)

lemma cells_inv_add_incident:
  "cells_inv ps cls \<Longrightarrow>
   cells_inv (ps @ map incident_coords (filter incident_located (non_null [el]))) (add_incident cls el)"
proof (cases el)
  case None
  assume "cells_inv ps cls"
  with None show ?thesis by (simp add: add_incident_def non_null_Cons non_null_Nil)
next
  case (Some inc)
  assume inv: "cells_inv ps cls"
  show ?thesis
  proof (cases "incident_located inc")
    case True
    with Some cells_inv_step [OF inv, of "\<lambda>c. c\<lparr>cl_incidents := cl_incidents c @ [inc],
                         totalPriority := totalPriority c + num_or (i_priority inc) 50\<rparr>" "the (i_lat inc)" "the (i_lng inc)"]
    show ?thesis
      by (simp add: add_incident_def non_null_Cons non_null_Nil incident_coords_def Let_def)
  next
    case False
    with Some inv show ?thesis by (simp add: add_incident_def non_null_Cons non_null_Nil)
  qed
qed

lemma non_null_append1: "non_null (x # xs) = non_null [x] @ non_null xs"
  by (simp add: non_null_Cons non_null_Nil split: option.splits)

lemma cells_inv_incidents:
  "cells_inv ps cls \<Longrightarrow>
   cells_inv (ps @ map incident_coords (filter incident_located (non_null xs))) (foldl add_incident cls xs)"
proof (induction xs arbitrary: ps cls)
  case Nil
  then show ?case by (simp add: non_null_Nil)
next
  case (Cons x xs)
  from cells_inv_add_incident [OF Cons.prems]
  have "cells_inv (ps @ map incident_coords (filter incident_located (non_null [x]))) (add_incident cls x)" .
  from Cons.IH [OF this] show ?case
    by (simp add: non_null_append1 [of x xs])
qed

lemma cells_inv_add_camera:
  "cells_inv ps cls \<Longrightarrow>
   cells_inv (ps @ map camera_coords (filter camera_qualifies (non_null [el]))) (add_camera cls el)"
proof (cases el)
  case None
  assume "cells_inv ps cls"
  with None show ?thesis by (simp add: add_camera_def non_null_Cons non_null_Nil)
next
  case (Some cam)
  assume inv: "cells_inv ps cls"
  show ?thesis
  proof (cases "camera_qualifies cam")
    case True
    with Some cells_inv_step [OF inv, of "\<lambda>c. c\<lparr>cl_cameras := cl_cameras c @ [cam],
                         totalPriority := totalPriority c + the (k_viewers cam)\<rparr>" "the (k_lat cam)" "the (k_lng cam)"]
    show ?thesis
      by (simp add: add_camera_def non_null_Cons non_null_Nil camera_coords_def Let_def)
  next
    case False
    with Some inv show ?thesis by (simp add: add_camera_def non_null_Cons non_null_Nil)
  qed
qed

lemma cells_inv_cameras:
  "cells_inv ps cls \<Longrightarrow>
   cells_inv (ps @ map camera_coords (filter camera_qualifies (non_null xs))) (foldl add_camera cls xs)"
proof (induction xs arbitrary: ps cls)
  case Nil
  then show ?case by (simp add: non_null_Nil)
next
  case (Cons x xs)
  from cells_inv_add_camera [OF Cons.prems]
  have "cells_inv (ps @ map camera_coords (filter camera_qualifies (non_null [x]))) (add_camera cls x)" .
  from Cons.IH [OF this] show ?case
    by (simp add: non_null_append1 [of x xs])
qed

lemma cells_inv_empty: "cells_inv [] []"
  by (simp add: cells_inv_def)

lemma cells_inv_server: "cells_inv (assigned_records incidents cameras) (locationClusters incidents cameras)"
proof -
  from cells_inv_incidents [OF cells_inv_empty, of incidents]
  have "cells_inv (map incident_coords (filter incident_located (non_null incidents)))
          (foldl add_incident [] incidents)" by simp
  from cells_inv_cameras [OF this, of cameras]
  show ?thesis by (simp add: assigned_records_def locationClusters_def)
qed

lemma cells_inv_add_incident_local:
  "cells_inv ps cls \<Longrightarrow>
   cells_inv (ps @ map incident_coords (filter incident_located [inc])) (add_incident_local cls inc)"
proof (cases "incident_located inc")
  case True
  assume inv: "cells_inv ps cls"
  from True cells_inv_step [OF inv, of "\<lambda>c. c\<lparr>cl_incidents := cl_incidents c @ [inc]\<rparr>"
      "the (i_lat inc)" "the (i_lng inc)"]
  show ?thesis by (simp add: add_incident_local_def incident_coords_def Let_def)
next
  case False
  assume "cells_inv ps cls"
  with False show ?thesis by (simp add: add_incident_local_def)
qed

lemma cells_inv_incidents_local:
  "cells_inv ps cls \<Longrightarrow>
   cells_inv (ps @ map incident_coords (filter incident_located xs)) (foldl add_incident_local cls xs)"
proof (induction xs arbitrary: ps cls)
  case Nil
  then show ?case by simp
next
  case (Cons x xs)
  from cells_inv_add_incident_local [OF Cons.prems]
  have "cells_inv (ps @ map incident_coords (filter incident_located [x])) (add_incident_local cls x)" .
  from Cons.IH [OF this] show ?case by (cases "incident_located x") simp_all
qed

lemma cells_inv_add_camera_local:
  "cells_inv ps cls \<Longrightarrow>
   cells_inv (ps @ map camera_coords (filter camera_located [cam])) (add_camera_local cls cam)"
proof (cases "camera_located cam")
  case True
  assume inv: "cells_inv ps cls"
  from True cells_inv_step [OF inv, of "\<lambda>c. c\<lparr>cl_cameras := cl_cameras c @ [cam]\<rparr>"
      "the (k_lat cam)" "the (k_lng cam)"]
  show ?thesis by (simp add: add_camera_local_def camera_coords_def Let_def)
next
  case False
  assume "cells_inv ps cls"
  with False show ?thesis by (simp add: add_camera_local_def)
qed

lemma cells_inv_cameras_local:
  "cells_inv ps cls \<Longrightarrow>
   cells_inv (ps @ map camera_coords (filter camera_located xs)) (foldl add_camera_local cls xs)"
proof (induction xs arbitrary: ps cls)
  case Nil
  then show ?case by simp
next
  case (Cons x xs)
  from cells_inv_add_camera_local [OF Cons.prems]
  have "cells_inv (ps @ map camera_coords (filter camera_located [x])) (add_camera_local cls x)" .
  from Cons.IH [OF this] show ?case by (cases "camera_located x") simp_all
qed

lemma cells_inv_client:
  "cells_inv (assigned_records_local incidents cameras) (local_clusters incidents cameras)"
proof -
  from cells_inv_incidents_local [OF cells_inv_empty, of incidents]
  have "cells_inv (map incident_coords (filter incident_located incidents))
          (foldl add_incident_local [] incidents)" by simp
  from cells_inv_cameras_local [OF this, of "filter (\<lambda>c. viewers_gt (k_viewers c) 50) cameras"]
  show ?thesis by (simp add: assigned_records_local_def local_clusters_def)
qed

lemma cells_inv_first:
  assumes "cells_inv ps cls" and "e \<in> set cls"
  shows "first_in_cell (cell_key (cl_lat (snd e)) (cl_lng (snd e))) ps
           = Some (cl_lat (snd e), cl_lng (snd e))"
proof -
  from assms have f: "first_in_cell (fst e) ps = Some (cl_lat (snd e), cl_lng (snd e))"
    by (simp add: cells_inv_def)
  then have "in_cell (fst e) (cl_lat (snd e), cl_lng (snd e))"
    by (auto simp: first_in_cell_def find_Some_iff)
  then have "cell_key (cl_lat (snd e)) (cl_lng (snd e)) = fst e"
    by (simp add: in_cell_def)
  with f show ?thesis by simp
qed

text \<open>
  C10. Every hotspot carries as its \<open>lat\<close> and \<open>lng\<close> the exact coordinates of the first
  record (a located incident, or else a qualifying camera) that was assigned to its grid
  cell, on the server and in the client fallback alike; the rounded coordinates are only
  the key of the cell.
\<close>

theorem hotspot_carries_first_record_coordinates:
  "(\<forall>h \<in> set (hotspots (performAlgorithmicAnalysis incidents cameras news now)).
      first_in_cell (cell_key (h_lat h) (h_lng h)) (assigned_records incidents cameras)
        = Some (h_lat h, h_lng h))
   \<and> (\<forall>h \<in> set (hotspots (performLocalAnalysis incidents' cameras' now)).
      first_in_cell (cell_key (h_lat h) (h_lng h)) (assigned_records_local incidents' cameras')
        = Some (h_lat h, h_lng h))"
proof -
  have a: "\<forall>h \<in> set (hotspots (performAlgorithmicAnalysis incidents cameras news now)).
      first_in_cell (cell_key (h_lat h) (h_lng h)) (assigned_records incidents cameras)
        = Some (h_lat h, h_lng h)"
  proof
    fix h assume "h \<in> set (hotspots (performAlgorithmicAnalysis incidents cameras news now))"
    with server_hotspots_subset have "h \<in> set (all_hotspots incidents cameras)" by blast
    from all_hotspots_mem [OF this] obtain e
      where e: "e \<in> set (locationClusters incidents cameras)" and h: "h = cluster_hotspot (snd e)"
      by blast
    from cells_inv_first [OF cells_inv_server e] h
    show "first_in_cell (cell_key (h_lat h) (h_lng h)) (assigned_records incidents cameras)
        = Some (h_lat h, h_lng h)"
      by (simp add: cluster_hotspot_def)
  qed
  have b: "\<forall>h \<in> set (hotspots (performLocalAnalysis incidents' cameras' now)).
      first_in_cell (cell_key (h_lat h) (h_lng h)) (assigned_records_local incidents' cameras')
        = Some (h_lat h, h_lng h)"
  proof
    fix h assume "h \<in> set (hotspots (performLocalAnalysis incidents' cameras' now))"
    with client_hotspots_subset have "h \<in> set (local_all_hotspots incidents' cameras')" by blast
    from local_all_hotspots_mem [OF this] obtain e
      where e: "e \<in> set (local_clusters incidents' cameras')" and h: "h = local_hotspot (snd e)"
      by blast
    from cells_inv_first [OF cells_inv_client e] h
    show "first_in_cell (cell_key (h_lat h) (h_lng h)) (assigned_records_local incidents' cameras')
        = Some (h_lat h, h_lng h)"
      by (simp add: local_hotspot_def)
  qed
  from a b show ?thesis by blast
qed

theorem hotspot_carries_first_record_coordinates_witness:
  "\<lparr>h_lat = 41.87, h_lng = - 87.63, intensity = 185 / 3, incidentCount = 2, cameraCount = 0,
      h_description = ''2 incidents, 0 active cameras'', topIncident = Some ''Robbery''\<rparr>
     \<in> set (hotspots (performAlgorithmicAnalysis
          [Some \<lparr>i_lat = Some 41.87, i_lng = Some (- 87.63), i_priority = Some 95, i_title = Some ''Robbery''\<rparr>,
           Some \<lparr>i_lat = Some 41.91, i_lng = Some (- 87.58), i_priority = Some 90, i_title = Some ''Theft''\<rparr>]
          [] ([] :: unit list) []))
   \<and> first_in_cell (cell_key 41.87 (- 87.63))
        (assigned_records
          [Some \<lparr>i_lat = Some 41.87, i_lng = Some (- 87.63), i_priority = Some 95, i_title = Some ''Robbery''\<rparr>,
           Some \<lparr>i_lat = Some 41.91, i_lng = Some (- 87.58), i_priority = Some 90, i_title = Some ''Theft''\<rparr>]
          [])
       = Some (41.87, - 87.63)
   \<and> cell_key 41.87 (- 87.63) = (41.9, - 87.6)"
proof -
  let ?is = "[Some \<lparr>i_lat = Some 41.87, i_lng = Some (- 87.63), i_priority = Some 95, i_title = Some ''Robbery''\<rparr>,
           Some \<lparr>i_lat = Some 41.91, i_lng = Some (- 87.58), i_priority = Some 90, i_title = Some ''Theft''\<rparr>]"
  let ?h = "\<lparr>h_lat = 41.87, h_lng = - 87.63, intensity = 185 / 3, incidentCount = 2, cameraCount = 0,
      h_description = ''2 incidents, 0 active cameras'', topIncident = Some ''Robbery''\<rparr>"
  have m: "?h \<in> set (hotspots (performAlgorithmicAnalysis ?is [] ([] :: unit list) []))"
    by code_simp
  have "\<forall>h \<in> set (hotspots (performAlgorithmicAnalysis ?is [] ([] :: unit list) [])).
      first_in_cell (cell_key (h_lat h) (h_lng h)) (assigned_records ?is [])
        = Some (h_lat h, h_lng h)"
    using hotspot_carries_first_record_coordinates [of ?is "[]" "[] :: unit list" "[]"] by blast
  with m have f: "first_in_cell (cell_key (h_lat ?h) (h_lng ?h)) (assigned_records ?is [])
        = Some (h_lat ?h, h_lng ?h)" by blast
  have k: "cell_key 41.87 (- 87.63) = (41.9, - 87.6)"
    by (simp add: cell_key_def js_round_def)
  from m f k show ?thesis by simp
qed

section \<open>Threat level and the fallback of the analysis endpoint\<close>






text \<open>
  C2. Whenever the generative model is not configured, its call throws, its text contains
  no brace-delimited JSON candidate, or the candidate does not parse, the endpoint answers
  with the result of the local clustering algorithm on the request's incidents, cameras
  and news (each defaulting to the empty list). The answer is an ordinary response; the
  failure only reaches the console. A request without a body gets the local result for
  empty inputs.
\<close>

theorem fallback_when_ai_unusable:
  "(ai_unusable genAI JSON_parse (b :: 'n request_body) \<longrightarrow>
      snd (analyze_hotspots genAI JSON_parse now (Some b))
        = Fallback (performAlgorithmicAnalysis (list_or (b_incidents b)) (list_or (b_cameras b))
            (list_or (b_news b)) now))
   \<and> snd (analyze_hotspots genAI JSON_parse now None)
        = Fallback (performAlgorithmicAnalysis [] [] ([] :: 'n list) now)"
  by (simp add: ai_unusable_def analyze_hotspots_def Let_def
      split: option.splits ai_outcome.splits sum.splits)

theorem fallback_when_ai_unusable_witness:
  "ai_unusable (Some prose_model) (Inl :: string \<Rightarrow> string + unit)
      \<lparr>b_incidents = Some [Some \<lparr>i_lat = Some 41.87, i_lng = Some (- 87.63),
          i_priority = Some 95, i_title = None\<rparr>], b_cameras = None, b_news = None\<rparr>
   \<and> snd (analyze_hotspots (Some prose_model) (Inl :: string \<Rightarrow> string + unit) []
        (Some \<lparr>b_incidents = Some [Some \<lparr>i_lat = Some 41.87, i_lng = Some (- 87.63),
          i_priority = Some 95, i_title = None\<rparr>], b_cameras = None, b_news = None\<rparr>))
     = Fallback (performAlgorithmicAnalysis
         [Some \<lparr>i_lat = Some 41.87, i_lng = Some (- 87.63), i_priority = Some 95, i_title = None\<rparr>]
         [] ([] :: unit list) [])"
proof -
  let ?b = "\<lparr>b_incidents = Some [Some \<lparr>i_lat = Some 41.87, i_lng = Some (- 87.63),
          i_priority = Some 95, i_title = None\<rparr>], b_cameras = None, b_news = (None :: unit list option)\<rparr>"
  have u: "ai_unusable (Some prose_model) (Inl :: string \<Rightarrow> string + unit) ?b"
    by (simp add: ai_unusable_def prose_model_def json_match_def)
  from fallback_when_ai_unusable [of "Some prose_model" "Inl :: string \<Rightarrow> string + unit" ?b "[]"] u
  have "snd (analyze_hotspots (Some prose_model) (Inl :: string \<Rightarrow> string + unit) [] (Some ?b))
        = Fallback (performAlgorithmicAnalysis (list_or (b_incidents ?b)) (list_or (b_cameras ?b))
            (list_or (b_news ?b)) [])"
    by blast
  with u show ?thesis by (simp add: list_or_def)
qed

section \<open>Aggregation of the incident adapters\<close>

lemma adapt_failed: "failed out \<Longrightarrow> adapt f out = []"
  by (cases out) (simp_all add: failed_def adapt_def)

lemma adapt_has_coords: "i \<in> set (adapt f out) \<Longrightarrow> has_coords i"
  by (cases out) (simp_all add: adapt_def)

lemma sorted_desc_priority: "sorted_wrt (\<lambda>a b. priority b \<le> priority a) (sort_by_priority xs)"
proof -
  have "sorted (map (\<lambda>i. - priority i) (sort_key (\<lambda>i. - priority i) xs))"
    by (rule sorted_sort_key)
  then show ?thesis
    by (simp add: sort_by_priority_def sorted_wrt_map)
qed

lemma mset_sort_by_priority: "mset (sort_by_priority xs) = mset xs"
  by (simp add: sort_by_priority_def)

lemma get_incidents_contributions:
  "get_incidents q now env = sort_by_priority (concat (map snd (contributions q now env)))"
  by (simp add: get_incidents_def contributions_def Let_def)

lemma contributions_failed:
  "c \<in> set (contributions q now env) \<Longrightarrow> fst c \<Longrightarrow> snd c = []"
  by (auto simp: contributions_def adapt_failed fetchNYC311Incidents_def
      fetchChicago311Incidents_def fetchChicagoCrimes_def fetchChicagoTrafficCrashes_def
      fetchChicagoSpeedViolations_def fetchChicagoRedLightViolations_def
      fetchChicagoShotSpotter_def fetchChicagoBuildingViolations_def
      fetchEvansvilleCrimes_def fetchEvansvilleShotsFired_def split: if_splits)

lemma others_of_empty:
  assumes "i < length cs" and "snd (cs ! i) = []"
  shows "concat (map snd cs) = others i cs"
proof -
  from assms(1) have "cs = take i cs @ cs ! i # drop (Suc i) cs"
    by (rule id_take_nth_drop)
  then have "concat (map snd cs) = concat (map snd (take i cs @ cs ! i # drop (Suc i) cs))"
    by simp
  also have "\<dots> = others i cs"
    using assms(2) by (simp add: others_def)
  finally show ?thesis .
qed

text \<open>
  C7. The merged incident list is the adapters' results, concatenated and sorted by
  descending priority. If the provider call of any one adapter fails, that adapter
  contributes nothing, and the merged list holds exactly the records of the other
  adapters (each as often as they return it), whatever those return.
\<close>

theorem merged_result_without_failed_adapter:
  "get_incidents q now env = sort_by_priority (concat (map snd (contributions q now env)))
   \<and> sorted_wrt (\<lambda>a b. priority b \<le> priority a) (get_incidents q now env)
   \<and> (\<forall>i < length (contributions q now env).
         fst (contributions q now env ! i) \<longrightarrow>
           snd (contributions q now env ! i) = []
           \<and> mset (get_incidents q now env) = mset (others i (contributions q now env)))"
proof -
  have a: "get_incidents q now env = sort_by_priority (concat (map snd (contributions q now env)))"
    by (rule get_incidents_contributions)
  have b: "sorted_wrt (\<lambda>a b. priority b \<le> priority a) (get_incidents q now env)"
    by (simp add: a sorted_desc_priority)
  have c: "\<forall>i < length (contributions q now env).
         fst (contributions q now env ! i) \<longrightarrow>
           snd (contributions q now env ! i) = []
           \<and> mset (get_incidents q now env) = mset (others i (contributions q now env))"
  proof (intro allI impI)
    fix i assume i: "i < length (contributions q now env)"
      and f: "fst (contributions q now env ! i)"
    from i have "contributions q now env ! i \<in> set (contributions q now env)" by simp
    from contributions_failed [OF this f] have e: "snd (contributions q now env ! i) = []" .
    from others_of_empty [OF i e]
    have "mset (get_incidents q now env) = mset (others i (contributions q now env))"
      by (simp add: a mset_sort_by_priority)
    with e show "snd (contributions q now env ! i) = []
           \<and> mset (get_incidents q now env) = mset (others i (contributions q now env))"
      by simp
  qed
  from a b c show ?thesis by blast
qed

theorem merged_result_without_failed_adapter_witness:
  "0 < length (contributions None 0 nyc_down)
   \<and> fst (contributions None 0 nyc_down ! 0)
   \<and> snd (contributions None 0 nyc_down ! 0) = []
   \<and> mset (get_incidents None 0 nyc_down) = mset (others 0 (contributions None 0 nyc_down))
   \<and> map inc_id (get_incidents None 0 nyc_down) = [''chi-crash-ab12'', ''chi-crime-14001'']
   \<and> map priority (get_incidents None 0 nyc_down) = [70, 55]"
proof -
  have l: "0 < length (contributions None 0 nyc_down)"
    by (simp add: contributions_def city_param_def)
  have f: "fst (contributions None 0 nyc_down ! 0)"
    by (simp add: contributions_def city_param_def nyc_down_def failed_def)
  from merged_result_without_failed_adapter [of None 0 nyc_down] l f
  have m: "snd (contributions None 0 nyc_down ! 0) = []
      \<and> mset (get_incidents None 0 nyc_down) = mset (others 0 (contributions None 0 nyc_down))"
    by blast
  have v: "map inc_id (get_incidents None 0 nyc_down) = [''chi-crash-ab12'', ''chi-crime-14001'']"
    by code_simp
  have p: "map priority (get_incidents None 0 nyc_down) = [70, 55]"
    by code_simp
  from l f m v p show ?thesis by blast
qed

section \<open>Coordinates of adapter output\<close>

lemma adapt_rows:
  "adapt f (Rows data)
     = map (\<lambda>e. f (fst e) (snd e)) (filter (\<lambda>e. has_coords (f (fst e) (snd e))) (enumerate 0 data))"
  by (simp add: adapt_def filter_map comp_def)

lemma geom_truthy:
  "(truthy_num (geom_lat x y) \<and> truthy_num (geom_lng x y)) = (truthy_num y \<and> truthy_num x)"
  by (auto simp: geom_lat_def geom_lng_def truthy_num_def)

lemma num_or_null_truthy: "truthy_num (num_or_null v) = truthy_num v"
  by (simp add: num_or_null_def truthy_num_def)

lemma fetchNYC311Incidents_rows:
  "fetchNYC311Incidents (Rows data)
     = map (\<lambda>e. nyc311_incident (fst e) (snd e))
         (filter (\<lambda>e. truthy_num (n_latitude (snd e)) \<and> truthy_num (n_longitude (snd e))) (enumerate 0 data))"
  by (simp add: fetchNYC311Incidents_def adapt_rows has_coords_def nyc311_incident_def num_or_null_truthy geom_truthy)

lemma fetchNYC311Incidents_located: "i \<in> set (fetchNYC311Incidents out) \<Longrightarrow> has_coords i"
  by (simp add: fetchNYC311Incidents_def adapt_has_coords)

lemma fetchChicago311Incidents_rows:
  "fetchChicago311Incidents (Rows data)
     = map (\<lambda>e. chicago311_incident (fst e) (snd e))
         (filter (\<lambda>e. truthy_num (s_latitude (snd e)) \<and> truthy_num (s_longitude (snd e))) (enumerate 0 data))"
  by (simp add: fetchChicago311Incidents_def adapt_rows has_coords_def chicago311_incident_def num_or_null_truthy geom_truthy)

lemma fetchChicago311Incidents_located: "i \<in> set (fetchChicago311Incidents out) \<Longrightarrow> has_coords i"
  by (simp add: fetchChicago311Incidents_def adapt_has_coords)

lemma fetchChicagoCrimes_rows:
  "fetchChicagoCrimes now (Rows data)
     = map (\<lambda>e. chicago_crime_incident now (fst e) (snd e))
         (filter (\<lambda>e. truthy_num (c_latitude (snd e)) \<and> truthy_num (c_longitude (snd e))) (enumerate 0 data))"
  by (simp add: fetchChicagoCrimes_def adapt_rows has_coords_def chicago_crime_incident_def num_or_null_truthy geom_truthy)

lemma fetchChicagoCrimes_located: "i \<in> set (fetchChicagoCrimes now out) \<Longrightarrow> has_coords i"
  by (simp add: fetchChicagoCrimes_def adapt_has_coords)

lemma fetchChicagoTrafficCrashes_rows:
  "fetchChicagoTrafficCrashes (Rows data)
     = map (\<lambda>e. chicago_crash_incident (fst e) (snd e))
         (filter (\<lambda>e. truthy_num (x_latitude (snd e)) \<and> truthy_num (x_longitude (snd e))) (enumerate 0 data))"
  by (simp add: fetchChicagoTrafficCrashes_def adapt_rows has_coords_def chicago_crash_incident_def num_or_null_truthy geom_truthy)

lemma fetchChicagoTrafficCrashes_located: "i \<in> set (fetchChicagoTrafficCrashes out) \<Longrightarrow> has_coords i"
  by (simp add: fetchChicagoTrafficCrashes_def adapt_has_coords)

lemma fetchChicagoSpeedViolations_rows:
  "fetchChicagoSpeedViolations (Rows data)
     = map (\<lambda>e. speed_incident (fst e) (snd e))
         (filter (\<lambda>e. truthy_num (v_latitude (snd e)) \<and> truthy_num (v_longitude (snd e))) (enumerate 0 data))"
  by (simp add: fetchChicagoSpeedViolations_def adapt_rows has_coords_def speed_incident_def num_or_null_truthy geom_truthy)

lemma fetchChicagoSpeedViolations_located: "i \<in> set (fetchChicagoSpeedViolations out) \<Longrightarrow> has_coords i"
  by (simp add: fetchChicagoSpeedViolations_def adapt_has_coords)

lemma fetchChicagoRedLightViolations_rows:
  "fetchChicagoRedLightViolations (Rows data)
     = map (\<lambda>e. redlight_incident (fst e) (snd e))
         (filter (\<lambda>e. truthy_num (v_latitude (snd e)) \<and> truthy_num (v_longitude (snd e))) (enumerate 0 data))"
  by (simp add: fetchChicagoRedLightViolations_def adapt_rows has_coords_def redlight_incident_def num_or_null_truthy geom_truthy)

lemma fetchChicagoRedLightViolations_located: "i \<in> set (fetchChicagoRedLightViolations out) \<Longrightarrow> has_coords i"
  by (simp add: fetchChicagoRedLightViolations_def adapt_has_coords)

lemma fetchChicagoShotSpotter_rows:
  "fetchChicagoShotSpotter (Rows data)
     = map (\<lambda>e. shotspotter_incident (fst e) (snd e))
         (filter (\<lambda>e. truthy_num (g_latitude (snd e)) \<and> truthy_num (g_longitude (snd e))) (enumerate 0 data))"
  by (simp add: fetchChicagoShotSpotter_def adapt_rows has_coords_def shotspotter_incident_def num_or_null_truthy geom_truthy)

lemma fetchChicagoShotSpotter_located: "i \<in> set (fetchChicagoShotSpotter out) \<Longrightarrow> has_coords i"
  by (simp add: fetchChicagoShotSpotter_def adapt_has_coords)

lemma fetchChicagoBuildingViolations_rows:
  "fetchChicagoBuildingViolations (Rows data)
     = map (\<lambda>e. building_incident (fst e) (snd e))
         (filter (\<lambda>e. truthy_num (b_latitude (snd e)) \<and> truthy_num (b_longitude (snd e))) (enumerate 0 data))"
  by (simp add: fetchChicagoBuildingViolations_def adapt_rows has_coords_def building_incident_def num_or_null_truthy geom_truthy)

lemma fetchChicagoBuildingViolations_located: "i \<in> set (fetchChicagoBuildingViolations out) \<Longrightarrow> has_coords i"
  by (simp add: fetchChicagoBuildingViolations_def adapt_has_coords)

lemma fetchEvansvilleCrimes_rows:
  "fetchEvansvilleCrimes (Rows data)
     = map (\<lambda>e. evansville_crime_incident (fst e) (snd e))
         (filter (\<lambda>e. truthy_num (e_geom_y (snd e)) \<and> truthy_num (e_geom_x (snd e))) (enumerate 0 data))"
  by (simp add: fetchEvansvilleCrimes_def adapt_rows has_coords_def evansville_crime_incident_def num_or_null_truthy geom_truthy)

lemma fetchEvansvilleCrimes_located: "i \<in> set (fetchEvansvilleCrimes out) \<Longrightarrow> has_coords i"
  by (simp add: fetchEvansvilleCrimes_def adapt_has_coords)

lemma fetchEvansvilleShotsFired_rows:
  "fetchEvansvilleShotsFired (Rows data)
     = map (\<lambda>e. evansville_shots_incident (fst e) (snd e))
         (filter (\<lambda>e. truthy_num (f_geom_y (snd e)) \<and> truthy_num (f_geom_x (snd e))) (enumerate 0 data))"
  by (simp add: fetchEvansvilleShotsFired_def adapt_rows has_coords_def evansville_shots_incident_def num_or_null_truthy geom_truthy)

lemma fetchEvansvilleShotsFired_located: "i \<in> set (fetchEvansvilleShotsFired out) \<Longrightarrow> has_coords i"
  by (simp add: fetchEvansvilleShotsFired_def adapt_has_coords)

lemma camera_rows:
  "adapt_cameras f (Rows data) = map (\<lambda>e. f (fst e) (snd e)) (enumerate 0 data)"
  by (simp add: adapt_cameras_def)

lemma camera_row_nth:
  "i < length data \<Longrightarrow> adapt_cameras f (Rows data) ! i = f i (data ! i)"
  by (simp add: adapt_cameras_def nth_enumerate_eq)

text \<open>
  C8, as stated: every adapter, the camera adapters included, leaves out a record whose
  provider data lacks coordinates. It fails for the NYC camera adapter, which keeps such a
  row and places it at the default coordinates of the city.
\<close>

theorem camera_without_coordinates_counterexample:
  "fetchNYCCameras lowest_draws
     (Rows [\<lparr>cameraid = Some ''7'', nc_name = Some ''Broadway'', borough = None,
             nc_latitude = None, nc_longitude = None, videourl = None\<rparr>])
   = [\<lparr>cam_id = ''nyc-7'', cam_name = ''Broadway'', cam_location = ''New York'',
        cam_lat = 40.7128, cam_lng = - 74.006,
        cam_url = Some ''https://webcams.nyctmc.org/multiviewer/data/7/snapshot.jpg'',
        streamUrl = None, cam_status = ''active'', cam_source = ''NYC DOT'', viewers = 0\<rparr>]"
  by code_simp

text \<open>
  C8, amended. Every incident adapter returns exactly the mapped rows whose latitude and
  longitude are both present and non-zero, so every incident it returns has a defined
  numeric \<open>lat\<close> and \<open>lng\<close> and a row without coordinates is left out. The camera
  adapters do not filter: they return one camera per row, and the NYC and Chicago camera
  adapters put the default coordinates of the city in place of a missing latitude or
  longitude, so every camera has numeric coordinates as well.
\<close>

theorem adapters_and_coordinates:
  "(\<forall>i \<in> set (fetchNYC311Incidents out_a). truthy_num (lat i) \<and> truthy_num (lng i))
   \<and> (\<forall>i \<in> set (fetchChicago311Incidents out_b). truthy_num (lat i) \<and> truthy_num (lng i))
   \<and> (\<forall>i \<in> set (fetchChicagoCrimes now out_c). truthy_num (lat i) \<and> truthy_num (lng i))
   \<and> (\<forall>i \<in> set (fetchChicagoTrafficCrashes out_d). truthy_num (lat i) \<and> truthy_num (lng i))
   \<and> (\<forall>i \<in> set (fetchChicagoSpeedViolations out_e). truthy_num (lat i) \<and> truthy_num (lng i))
   \<and> (\<forall>i \<in> set (fetchChicagoRedLightViolations out_f). truthy_num (lat i) \<and> truthy_num (lng i))
   \<and> (\<forall>i \<in> set (fetchChicagoShotSpotter out_g). truthy_num (lat i) \<and> truthy_num (lng i))
   \<and> (\<forall>i \<in> set (fetchChicagoBuildingViolations out_h). truthy_num (lat i) \<and> truthy_num (lng i))
   \<and> (\<forall>i \<in> set (fetchEvansvilleCrimes out_i). truthy_num (lat i) \<and> truthy_num (lng i))
   \<and> (\<forall>i \<in> set (fetchEvansvilleShotsFired out_j). truthy_num (lat i) \<and> truthy_num (lng i))
   \<and> fetchNYC311Incidents (Rows data_a)
       = map (\<lambda>e. nyc311_incident (fst e) (snd e))
           (filter (\<lambda>e. truthy_num (n_latitude (snd e)) \<and> truthy_num (n_longitude (snd e))) (enumerate 0 data_a))
   \<and> fetchChicago311Incidents (Rows data_b)
       = map (\<lambda>e. chicago311_incident (fst e) (snd e))
           (filter (\<lambda>e. truthy_num (s_latitude (snd e)) \<and> truthy_num (s_longitude (snd e))) (enumerate 0 data_b))
   \<and> fetchChicagoCrimes now (Rows data_c)
       = map (\<lambda>e. chicago_crime_incident now (fst e) (snd e))
           (filter (\<lambda>e. truthy_num (c_latitude (snd e)) \<and> truthy_num (c_longitude (snd e))) (enumerate 0 data_c))
   \<and> fetchChicagoTrafficCrashes (Rows data_d)
       = map (\<lambda>e. chicago_crash_incident (fst e) (snd e))
           (filter (\<lambda>e. truthy_num (x_latitude (snd e)) \<and> truthy_num (x_longitude (snd e))) (enumerate 0 data_d))
   \<and> fetchChicagoSpeedViolations (Rows data_e)
       = map (\<lambda>e. speed_incident (fst e) (snd e))
           (filter (\<lambda>e. truthy_num (v_latitude (snd e)) \<and> truthy_num (v_longitude (snd e))) (enumerate 0 data_e))
   \<and> fetchChicagoRedLightViolations (Rows data_f)
       = map (\<lambda>e. redlight_incident (fst e) (snd e))
           (filter (\<lambda>e. truthy_num (v_latitude (snd e)) \<and> truthy_num (v_longitude (snd e))) (enumerate 0 data_f))
   \<and> fetchChicagoShotSpotter (Rows data_g)
       = map (\<lambda>e. shotspotter_incident (fst e) (snd e))
           (filter (\<lambda>e. truthy_num (g_latitude (snd e)) \<and> truthy_num (g_longitude (snd e))) (enumerate 0 data_g))
   \<and> fetchChicagoBuildingViolations (Rows data_h)
       = map (\<lambda>e. building_incident (fst e) (snd e))
           (filter (\<lambda>e. truthy_num (b_latitude (snd e)) \<and> truthy_num (b_longitude (snd e))) (enumerate 0 data_h))
   \<and> fetchEvansvilleCrimes (Rows data_i)
       = map (\<lambda>e. evansville_crime_incident (fst e) (snd e))
           (filter (\<lambda>e. truthy_num (e_geom_y (snd e)) \<and> truthy_num (e_geom_x (snd e))) (enumerate 0 data_i))
   \<and> fetchEvansvilleShotsFired (Rows data_j)
       = map (\<lambda>e. evansville_shots_incident (fst e) (snd e))
           (filter (\<lambda>e. truthy_num (f_geom_y (snd e)) \<and> truthy_num (f_geom_x (snd e))) (enumerate 0 data_j))
   \<and> length (fetchNYCCameras rnd (Rows cams)) = length cams
   \<and> (\<forall>i < length cams.
        cam_lat (fetchNYCCameras rnd (Rows cams) ! i) = num_or (nc_latitude (cams ! i)) 40.7128
        \<and> cam_lng (fetchNYCCameras rnd (Rows cams) ! i) = num_or (nc_longitude (cams ! i)) (- 74.0060))
   \<and> length (fetchChicagoCameras rnd (Rows cams')) = length cams' 
   \<and> (\<forall>i < length cams'.
        cam_lat (fetchChicagoCameras rnd (Rows cams') ! i) = num_or (cc_latitude (cams' ! i)) 41.8781
        \<and> cam_lng (fetchChicagoCameras rnd (Rows cams') ! i) = num_or (cc_longitude (cams' ! i)) (- 87.6298))"

proof -
  have l1: "\<forall>i \<in> set (fetchNYC311Incidents out_a). truthy_num (lat i) \<and> truthy_num (lng i)"
    using fetchNYC311Incidents_located [of _ out_a] by (simp add: has_coords_def)
  have l2: "\<forall>i \<in> set (fetchChicago311Incidents out_b). truthy_num (lat i) \<and> truthy_num (lng i)"
    using fetchChicago311Incidents_located [of _ out_b] by (simp add: has_coords_def)
  have l3: "\<forall>i \<in> set (fetchChicagoCrimes now out_c). truthy_num (lat i) \<and> truthy_num (lng i)"
    using fetchChicagoCrimes_located [of _ now out_c] by (simp add: has_coords_def)
  have l4: "\<forall>i \<in> set (fetchChicagoTrafficCrashes out_d). truthy_num (lat i) \<and> truthy_num (lng i)"
    using fetchChicagoTrafficCrashes_located [of _ out_d] by (simp add: has_coords_def)
  have l5: "\<forall>i \<in> set (fetchChicagoSpeedViolations out_e). truthy_num (lat i) \<and> truthy_num (lng i)"
    using fetchChicagoSpeedViolations_located [of _ out_e] by (simp add: has_coords_def)
  have l6: "\<forall>i \<in> set (fetchChicagoRedLightViolations out_f). truthy_num (lat i) \<and> truthy_num (lng i)"
    using fetchChicagoRedLightViolations_located [of _ out_f] by (simp add: has_coords_def)
  have l7: "\<forall>i \<in> set (fetchChicagoShotSpotter out_g). truthy_num (lat i) \<and> truthy_num (lng i)"
    using fetchChicagoShotSpotter_located [of _ out_g] by (simp add: has_coords_def)
  have l8: "\<forall>i \<in> set (fetchChicagoBuildingViolations out_h). truthy_num (lat i) \<and> truthy_num (lng i)"
    using fetchChicagoBuildingViolations_located [of _ out_h] by (simp add: has_coords_def)
  have l9: "\<forall>i \<in> set (fetchEvansvilleCrimes out_i). truthy_num (lat i) \<and> truthy_num (lng i)"
    using fetchEvansvilleCrimes_located [of _ out_i] by (simp add: has_coords_def)
  have l10: "\<forall>i \<in> set (fetchEvansvilleShotsFired out_j). truthy_num (lat i) \<and> truthy_num (lng i)"
    using fetchEvansvilleShotsFired_located [of _ out_j] by (simp add: has_coords_def)
  note r1 = fetchNYC311Incidents_rows [of data_a]
  note r2 = fetchChicago311Incidents_rows [of data_b]
  note r3 = fetchChicagoCrimes_rows [of now data_c]
  note r4 = fetchChicagoTrafficCrashes_rows [of data_d]
  note r5 = fetchChicagoSpeedViolations_rows [of data_e]
  note r6 = fetchChicagoRedLightViolations_rows [of data_f]
  note r7 = fetchChicagoShotSpotter_rows [of data_g]
  note r8 = fetchChicagoBuildingViolations_rows [of data_h]
  note r9 = fetchEvansvilleCrimes_rows [of data_i]
  note r10 = fetchEvansvilleShotsFired_rows [of data_j]
  have n1: "length (fetchNYCCameras rnd (Rows cams)) = length cams"
    by (simp add: fetchNYCCameras_def camera_rows)
  have n2: "\<forall>i < length cams.
        cam_lat (fetchNYCCameras rnd (Rows cams) ! i) = num_or (nc_latitude (cams ! i)) 40.7128
        \<and> cam_lng (fetchNYCCameras rnd (Rows cams) ! i) = num_or (nc_longitude (cams ! i)) (- 74.0060)"
    by (simp add: fetchNYCCameras_def camera_row_nth nyc_camera_def)
  have c1: "length (fetchChicagoCameras rnd (Rows cams')) = length cams'"
    by (simp add: fetchChicagoCameras_def camera_rows)
  have c2: "\<forall>i < length cams'.
        cam_lat (fetchChicagoCameras rnd (Rows cams') ! i) = num_or (cc_latitude (cams' ! i)) 41.8781
        \<and> cam_lng (fetchChicagoCameras rnd (Rows cams') ! i) = num_or (cc_longitude (cams' ! i)) (- 87.6298)"
    by (simp add: fetchChicagoCameras_def camera_row_nth chicago_camera_def)
  from l1 l2 l3 l4 l5 l6 l7 l8 l9 l10 r1 r2 r3 r4 r5 r6 r7 r8 r9 r10 n1 n2 c1 c2 show ?thesis by (intro conjI)
qed

theorem adapters_and_coordinates_witness:
  "map inc_id (fetchNYC311Incidents (Rows
       [\<lparr>unique_key = Some ''61'', complaint_type = Some ''Noise'', descriptor = None,
          n_latitude = Some 40.71, n_longitude = Some (- 74), n_status = Some ''Open''\<rparr>,
        \<lparr>unique_key = Some ''62'', complaint_type = Some ''Noise'', descriptor = None,
          n_latitude = None, n_longitude = None, n_status = Some ''Open''\<rparr>])) = [''nyc311-61'']
   \<and> map lat (fetchNYC311Incidents (Rows
       [\<lparr>unique_key = Some ''61'', complaint_type = Some ''Noise'', descriptor = None,
          n_latitude = Some 40.71, n_longitude = Some (- 74), n_status = Some ''Open''\<rparr>,
        \<lparr>unique_key = Some ''62'', complaint_type = Some ''Noise'', descriptor = None,
          n_latitude = None, n_longitude = None, n_status = Some ''Open''\<rparr>])) = [Some 40.71]
   \<and> (0 :: nat) < length [\<lparr>cameraid = Some ''7'', nc_name = Some ''Broadway'', borough = None,
          nc_latitude = None, nc_longitude = Some (- 73.99), videourl = None\<rparr>]
   \<and> cam_lat (fetchNYCCameras lowest_draws (Rows
       [\<lparr>cameraid = Some ''7'', nc_name = Some ''Broadway'', borough = None,
          nc_latitude = None, nc_longitude = Some (- 73.99), videourl = None\<rparr>]) ! 0) = 40.7128
   \<and> cam_lng (fetchNYCCameras lowest_draws (Rows
       [\<lparr>cameraid = Some ''7'', nc_name = Some ''Broadway'', borough = None,
          nc_latitude = None, nc_longitude = Some (- 73.99), videourl = None\<rparr>]) ! 0) = - 73.99"
proof -
  let ?rows = "[\<lparr>unique_key = Some ''61'', complaint_type = Some ''Noise'', descriptor = None,
          n_latitude = Some 40.71, n_longitude = Some (- 74), n_status = Some ''Open''\<rparr>,
        \<lparr>unique_key = Some ''62'', complaint_type = Some ''Noise'', descriptor = None,
          n_latitude = None, n_longitude = None, n_status = Some ''Open''\<rparr>]"
  let ?cams = "[\<lparr>cameraid = Some ''7'', nc_name = Some ''Broadway'', borough = None,
          nc_latitude = None, nc_longitude = Some (- 73.99), videourl = None\<rparr>]"
  note t = adapters_and_coordinates [where data_a = ?rows and cams = ?cams and rnd = lowest_draws
      and out_a = "Rows ?rows" and out_b = FetchThrows and out_c = FetchThrows
      and out_d = FetchThrows and out_e = FetchThrows and out_f = FetchThrows
      and out_g = FetchThrows and out_h = FetchThrows and out_i = FetchThrows
      and out_j = FetchThrows and now = 0 and data_b = "[]" and data_c = "[]" and data_d = "[]"
      and data_e = "[]" and data_f = "[]" and data_g = "[]" and data_h = "[]" and data_i = "[]"
      and data_j = "[]" and cams' = "[]"]
  from t have r: "fetchNYC311Incidents (Rows ?rows)
       = map (\<lambda>e. nyc311_incident (fst e) (snd e))
           (filter (\<lambda>e. truthy_num (n_latitude (snd e)) \<and> truthy_num (n_longitude (snd e)))
             (enumerate 0 ?rows))"
    by blast
  have 1: "map inc_id (fetchNYC311Incidents (Rows ?rows)) = [''nyc311-61'']"
    unfolding r by (simp add: truthy_num_def nyc311_incident_def str_or_def)
  have 2: "map lat (fetchNYC311Incidents (Rows ?rows)) = [Some 40.71]"
    unfolding r by (simp add: truthy_num_def nyc311_incident_def num_or_null_def)
  have 3: "(0 :: nat) < length ?cams" by simp
  from t have "\<forall>i < length ?cams.
        cam_lat (fetchNYCCameras lowest_draws (Rows ?cams) ! i) = num_or (nc_latitude (?cams ! i)) 40.7128
        \<and> cam_lng (fetchNYCCameras lowest_draws (Rows ?cams) ! i) = num_or (nc_longitude (?cams ! i)) (- 74.0060)"
    by (elim conjE)
  with 3 have "cam_lat (fetchNYCCameras lowest_draws (Rows ?cams) ! 0) = num_or (nc_latitude (?cams ! 0)) 40.7128
        \<and> cam_lng (fetchNYCCameras lowest_draws (Rows ?cams) ! 0) = num_or (nc_longitude (?cams ! 0)) (- 74.0060)"
    by blast
  then have 4: "cam_lat (fetchNYCCameras lowest_draws (Rows ?cams) ! 0) = 40.7128
      \<and> cam_lng (fetchNYCCameras lowest_draws (Rows ?cams) ! 0) = - 73.99"
    by (simp add: num_or_def)
  from 1 2 3 4 show ?thesis by blast
qed

lemma toLowerCase_empty: "toLowerCase c = [] \<longleftrightarrow> c = []"
  by (simp add: toLowerCase_def)

lemma stream_cities:
  "map rs_city (allStreams rnd)
     = [''chicago'', ''chicago'', ''chicago'', ''chicago'', ''chicago'', ''chicago'', ''chicago'',
        ''chicago'', ''chicago'', ''chicago'', ''nyc'', ''nyc'', ''nyc'', ''la'', ''la'']"
  by (simp add: allStreams_def)

lemma no_stream_of_unknown_city:
  assumes "k \<notin> set city_codes"
  shows "filter (\<lambda>s. Some (rs_city s) = Some k) (allStreams rnd) = []"
proof -
  have "\<forall>s \<in> set (allStreams rnd). rs_city s \<in> set (map rs_city (allStreams rnd))"
    by simp
  then have "\<forall>s \<in> set (allStreams rnd). rs_city s \<in> {''chicago'', ''nyc'', ''la''}"
    unfolding stream_cities by simp
  moreover from assms have "k \<notin> {''chicago'', ''nyc'', ''la''}"
    by (simp add: city_codes_def)
  ultimately have "\<forall>s \<in> set (allStreams rnd). rs_city s \<noteq> k" by metis
  then show ?thesis by (simp add: filter_empty_conv)
qed

text \<open>
  C9, as stated: with an unknown city code GET /radio-streams returns the default stream
  list. It returns the empty list, while the default list is not empty.
\<close>

theorem radio_streams_unknown_city_counterexample:
  "toLowerCase ''boston'' \<notin> set city_codes
   \<and> get_radio_streams (Some ''boston'') lowest_draws = []
   \<and> length (get_radio_streams None lowest_draws) = 15"
  by code_simp

text \<open>
  C9, amended. For a city code that is not one of the predefined codes, GET /incidents
  returns what it returns without a city (the all-cities merge) and GET /cameras, which
  never reads the city, returns the full camera list. GET /radio-streams returns the
  streams whose city equals the lower-cased code: the empty list for an unknown non-empty
  code, and the full list only when the code is empty or absent.
\<close>

theorem unknown_city_code:
  "(toLowerCase c \<notin> set city_codes \<longrightarrow>
      get_incidents (Some c) now env = get_incidents None now env
      \<and> get_cameras (Some c) cenv = get_cameras None cenv
      \<and> get_radio_streams (Some c) rnd = (if c = [] then allStreams rnd else []))
   \<and> get_radio_streams None rnd = allStreams rnd"
proof -
  have a: "get_radio_streams None rnd = allStreams rnd"
    by (simp add: get_radio_streams_def city_param_def Let_def)
  have b: "toLowerCase c \<notin> set city_codes \<longrightarrow>
      get_incidents (Some c) now env = get_incidents None now env
      \<and> get_cameras (Some c) cenv = get_cameras None cenv
      \<and> get_radio_streams (Some c) rnd = (if c = [] then allStreams rnd else [])"
  proof
    assume u: "toLowerCase c \<notin> set city_codes"
    then have n: "toLowerCase c \<noteq> ''chicago''" and e: "toLowerCase c \<noteq> ''evansville''"
      by (simp_all add: city_codes_def)
    from n e have 1: "get_incidents (Some c) now env = get_incidents None now env"
      by (simp add: get_incidents_def city_param_def Let_def)
    have 2: "get_cameras (Some c) cenv = get_cameras None cenv"
      by (simp add: get_cameras_def)
    have 3: "get_radio_streams (Some c) rnd = (if c = [] then allStreams rnd else [])"
    proof (cases "c = []")
      case True
      then show ?thesis
        by (simp add: get_radio_streams_def city_param_def Let_def toLowerCase_def)
    next
      case False
      with n no_stream_of_unknown_city [OF u, of rnd] show ?thesis
        by (simp add: get_radio_streams_def city_param_def Let_def toLowerCase_empty)
    qed
    from 1 2 3 show "get_incidents (Some c) now env = get_incidents None now env
      \<and> get_cameras (Some c) cenv = get_cameras None cenv
      \<and> get_radio_streams (Some c) rnd = (if c = [] then allStreams rnd else [])"
      by blast
  qed
  from a b show ?thesis by blast
qed

theorem unknown_city_code_witness:
  "toLowerCase ''Boston'' \<notin> set city_codes
   \<and> get_incidents (Some ''Boston'') 0 nyc_down = get_incidents None 0 nyc_down
   \<and> get_radio_streams (Some ''Boston'') lowest_draws = []"
proof -
  have u: "toLowerCase ''Boston'' \<notin> set city_codes" by code_simp
  from unknown_city_code [of "''Boston''" 0 nyc_down _ lowest_draws] u
  have "get_incidents (Some ''Boston'') 0 nyc_down = get_incidents None 0 nyc_down
      \<and> get_radio_streams (Some ''Boston'') lowest_draws = (if ''Boston'' = [] then allStreams lowest_draws else [])"
    by blast
  with u show ?thesis by simp
qed

end
